theory Spec2Isabelle
  imports Main
begin

section \<open>Values, exceptions and effects\<close>

text \<open>
  The two programs (\<^verbatim>\<open>ai-agent.py\<close>, the conversational variant, and
  \<^verbatim>\<open>traditional.py\<close>, the menu variant) exchange decoded JSON with the
  calendar service and with the language model. A Python dict is an association list
  (insertion order kept, looked up with \<open>map_of\<close>), a Python list is a list.
  A string is a list of characters, and a character is a code point below 256: the
  lines read from the input range over this alphabet. The symbols of the log lines that
  lie outside it are written as their UTF-8 bytes.
\<close>

datatype json =
    JNull
  | JBool bool
  | JNum int
  | JStr string
  | JArr "json list"
  | JObj "(string \<times> json) list"

text \<open>Python truthiness of a decoded JSON value (\<^verbatim>\<open>if x\<close>, \<^verbatim>\<open>not x\<close>, \<^verbatim>\<open>x or y\<close>).\<close>

fun truthy :: "json \<Rightarrow> bool" where
  "truthy JNull = False"
| "truthy (JBool b) = b"
| "truthy (JNum n) = (n \<noteq> 0)"
| "truthy (JStr s) = (s \<noteq> [])"
| "truthy (JArr xs) = (xs \<noteq> [])"
| "truthy (JObj kvs) = (kvs \<noteq> [])"

text \<open>
  An exception is its class and the text \<^verbatim>\<open>str(e)\<close>. The classes
  \<open>KeyboardInterrupt\<close> and \<open>SystemExit\<close> derive from \<^verbatim>\<open>BaseException\<close>
  only, so a handler \<^verbatim>\<open>except Exception\<close> does not catch them.
\<close>

datatype exn_class =
    TypeError | ValueError | KeyError | IndexError | AttributeError
  | OverflowError | EOFError | OtherError string
  | KeyboardInterrupt | SystemExit

datatype exn = Exn exn_class string

fun exn_class_of :: "exn \<Rightarrow> exn_class" where
  "exn_class_of (Exn c s) = c"

fun str_exn :: "exn \<Rightarrow> string" where
  "str_exn (Exn c s) = s"

fun is_Exception :: "exn \<Rightarrow> bool" where
  "is_Exception (Exn KeyboardInterrupt s) = False"
| "is_Exception (Exn SystemExit s) = False"
| "is_Exception (Exn c s) = True"

record credentials =
  valid :: bool
  expired :: bool
  refresh_token :: "string option"

datatype service = CalendarV3 credentials

datatype variant = Conversational | Menu

text \<open>The objects of the chat-completion interface, and the dicts of the history.\<close>

record tool_call =
  call_id :: string
  function_name :: string
  function_arguments :: "string option"

record chat_message =
  role :: string
  content :: "string option"
  tool_calls :: "tool_call list option"

record response =
  choices :: "chat_message list"

datatype message_dict =
    SystemMessage string
  | UserMessage string
  | AssistantMessage string "tool_call list"
  | ToolMessage string string string

datatype level = INFO | ERROR

text \<open>
  Everything the programs do to the outside world is recorded, in order, in a trace:
  the accesses to the credential store, the requests to the calendar service and to the
  language model, the prompts and the log lines.
\<close>

datatype effect =
    PathExists
  | LoadCredentials
  | Refresh
  | RunLocalServer variant
  | WriteToken credentials
  | Build
  | Execute json json json
  | ChatCreate "message_dict list"
  | Prompt string
  | Log level string

fun is_credential_access :: "effect \<Rightarrow> bool" where
  "is_credential_access PathExists = True"
| "is_credential_access LoadCredentials = True"
| "is_credential_access Refresh = True"
| "is_credential_access (RunLocalServer v) = True"
| "is_credential_access (WriteToken c) = True"
| "is_credential_access e = False"

fun is_network_call :: "effect \<Rightarrow> bool" where
  "is_network_call Refresh = True"
| "is_network_call (RunLocalServer v) = True"
| "is_network_call (Execute r m p) = True"
| "is_network_call (ChatCreate h) = True"
| "is_network_call e = False"

text \<open>
  A \<^verbatim>\<open>datetime\<close> in UTC: every one the menu variant computes with is aware and in
  UTC (\<^verbatim>\<open>replace(tzinfo=timezone.utc)\<close>, \<^verbatim>\<open>astimezone(timezone.utc)\<close>).
\<close>

record datetime =
  year :: nat
  month :: nat
  day :: nat
  hour :: nat
  minute :: nat
  second :: nat
  microsecond :: nat

text \<open>
  The libraries and services the programs call are parameters: each answers with a value
  or with the exception it raises, and may depend on everything that happened before
  (the trace so far).
\<close>

record env =
  path_exists :: "effect list \<Rightarrow> bool"
  from_authorized_user_file :: "effect list \<Rightarrow> exn + credentials"
  refresh :: "effect list \<Rightarrow> credentials \<Rightarrow> exn + credentials"
  run_local_server :: "effect list \<Rightarrow> variant \<Rightarrow> exn + credentials"
  write_token :: "effect list \<Rightarrow> credentials \<Rightarrow> exn + unit"
  build :: "effect list \<Rightarrow> credentials \<Rightarrow> exn + service"
  execute :: "effect list \<Rightarrow> service \<Rightarrow> json \<Rightarrow> json \<Rightarrow> json \<Rightarrow> exn + json"
  chat_completions_create :: "effect list \<Rightarrow> message_dict list \<Rightarrow> exn + response"
  json_loads :: "string \<Rightarrow> exn + json"
  json_dumps :: "json \<Rightarrow> string"
  fromisoformat_astimezone_utc :: "string \<Rightarrow> exn + datetime"
  py_str :: "json \<Rightarrow> string"

record world =
  stdin :: "string list"
  input_messages :: "message_dict list"
  trace :: "effect list"

subsection \<open>Sequencing with exceptions\<close>

definition return_io :: "'a \<Rightarrow> world \<Rightarrow> (exn + 'a) \<times> world" where
  "return_io x w = (Inr x, w)"

definition raise_io :: "exn \<Rightarrow> world \<Rightarrow> (exn + 'a) \<times> world" where
  "raise_io e w = (Inl e, w)"

definition bind_io ::
  "(world \<Rightarrow> (exn + 'a) \<times> world) \<Rightarrow> ('a \<Rightarrow> world \<Rightarrow> (exn + 'b) \<times> world) \<Rightarrow>
   world \<Rightarrow> (exn + 'b) \<times> world" where
  "bind_io m f w = (case m w of (Inl e, w1) \<Rightarrow> (Inl e, w1) | (Inr x, w1) \<Rightarrow> f x w1)"

text \<open>\<^verbatim>\<open>try: body  except Exception as e: handler\<close>\<close>

definition try_except_Exception ::
  "(world \<Rightarrow> (exn + 'a) \<times> world) \<Rightarrow> (exn \<Rightarrow> world \<Rightarrow> (exn + 'a) \<times> world) \<Rightarrow>
   world \<Rightarrow> (exn + 'a) \<times> world" where
  "try_except_Exception body handler w =
     (case body w of
        (Inl e, w1) \<Rightarrow> if is_Exception e then handler e w1 else (Inl e, w1)
      | (Inr x, w1) \<Rightarrow> (Inr x, w1))"

definition emit :: "effect \<Rightarrow> world \<Rightarrow> world" where
  "emit ev w = w\<lparr>trace := trace w @ [ev]\<rparr>"

text \<open>An external operation: it is recorded, and answers from the history before it.\<close>

definition ext :: "effect \<Rightarrow> (effect list \<Rightarrow> exn + 'a) \<Rightarrow> world \<Rightarrow> (exn + 'a) \<times> world" where
  "ext ev oracle w = (oracle (trace w), emit ev w)"

definition logger :: "level \<Rightarrow> string \<Rightarrow> world \<Rightarrow> (exn + unit) \<times> world" where
  "logger l s w = (Inr (), emit (Log l s) w)"

section \<open>Configuration\<close>

definition GOOGLE_TOKEN_FILE :: string where
  "GOOGLE_TOKEN_FILE = ''token.json''"

definition ALLOWED_RESOURCES :: "string set" where
  "ALLOWED_RESOURCES = {''events''}"

fun ALLOWED_METHODS :: "variant \<Rightarrow> string set" where
  "ALLOWED_METHODS Conversational = {''list'', ''insert'', ''update'', ''delete''}"
| "ALLOWED_METHODS Menu = {''list'', ''insert''}"

text \<open>The symbols of the log lines, as UTF-8.\<close>

definition check_mark :: string where
  "check_mark = [CHR 0xE2, CHR 0x9C, CHR 0x85]"

definition cross_mark :: string where
  "cross_mark = [CHR 0xE2, CHR 0x9D, CHR 0x8C]"

definition arrows_mark :: string where
  "arrows_mark = [CHR 0xF0, CHR 0x9F, CHR 0x94, CHR 0x84]"

definition lock_mark :: string where
  "lock_mark = [CHR 0xF0, CHR 0x9F, CHR 0x94, CHR 0x90]"

section \<open>Credential Store\<close>

definition save_credentials :: "env \<Rightarrow> credentials \<Rightarrow> world \<Rightarrow> (exn + unit) \<times> world" where
  "save_credentials env creds =
     bind_io (ext (WriteToken creds) (\<lambda>h. write_token env h creds)) (\<lambda>_.
     logger INFO (check_mark @ '' Credentials saved to '' @ GOOGLE_TOKEN_FILE))"

definition get_calendar_service :: "variant \<Rightarrow> env \<Rightarrow> world \<Rightarrow> (exn + service) \<times> world" where
  "get_calendar_service v env =
     bind_io (ext PathExists (\<lambda>h. Inr (path_exists env h))) (\<lambda>exists.
     bind_io (if exists
              then bind_io (ext LoadCredentials (from_authorized_user_file env))
                     (\<lambda>c. return_io (Some c))
              else return_io None) (\<lambda>creds.
     bind_io (let flow =
                    bind_io (ext (RunLocalServer v) (\<lambda>h. run_local_server env h v)) (\<lambda>c.
                    bind_io (logger INFO (lock_mark @ '' New credentials obtained.'')) (\<lambda>_.
                    bind_io (save_credentials env c) (\<lambda>_.
                    return_io c)))
              in case creds of
                   None \<Rightarrow> flow
                 | Some c \<Rightarrow>
                     if valid c then return_io c
                     else if expired c \<and> refresh_token c \<noteq> None \<and> refresh_token c \<noteq> Some []
                     then bind_io (ext Refresh (\<lambda>h. refresh env h c)) (\<lambda>c'.
                          bind_io (logger INFO (arrows_mark @ '' Credentials refreshed.'')) (\<lambda>_.
                          bind_io (save_credentials env c') (\<lambda>_.
                          return_io c')))
                     else flow) (\<lambda>creds.
     ext Build (\<lambda>h. build env h creds))))"

section \<open>Calendar Gateway\<close>

text \<open>
  \<^verbatim>\<open>x not in S\<close> for a set of strings: hashing a list or a dict raises, and a value
  that is not a string is equal to no member.
\<close>

definition quoted :: "string \<Rightarrow> string" where
  "quoted s = [CHR 0x27] @ s @ [CHR 0x27]"

fun not_in :: "json \<Rightarrow> string set \<Rightarrow> exn + bool" where
  "not_in (JStr s) S = Inr (s \<notin> S)"
| "not_in (JArr xs) S = Inl (Exn TypeError (''unhashable type: '' @ quoted ''list''))"
| "not_in (JObj kvs) S = Inl (Exn TypeError (''unhashable type: '' @ quoted ''dict''))"
| "not_in x S = Inr True"

definition error_dict :: "string \<Rightarrow> json" where
  "error_dict s = JObj [(''error'', JStr s)]"

definition calendar_api_call ::
  "variant \<Rightarrow> env \<Rightarrow> json \<Rightarrow> json \<Rightarrow> json \<Rightarrow> world \<Rightarrow> (exn + json) \<times> world" where
  "calendar_api_call v env resource method params =
     bind_io (\<lambda>w. (case not_in resource ALLOWED_RESOURCES of
                     Inl e \<Rightarrow> Inl e
                   | Inr b \<Rightarrow> if b then Inr True else not_in method (ALLOWED_METHODS v), w))
       (\<lambda>rejected.
     if rejected then return_io (error_dict ''Method or resource not allowed.'')
     else try_except_Exception
            (bind_io (get_calendar_service v env) (\<lambda>service.
             ext (Execute resource method params)
               (\<lambda>h. execute env h service resource method params)))
            (\<lambda>e.
             bind_io (logger ERROR (cross_mark @ '' Calendar API error: '' @ str_exn e)) (\<lambda>_.
             return_io (error_dict (str_exn e)))))"

section \<open>Dispatcher and Conversational Driver\<close>

text \<open>
  \<^verbatim>\<open>calendar_api_call(**args)\<close>: the keys of the mapping are bound to the three
  parameters. A key that names no parameter, a parameter without a key, and an argument
  that is no mapping each raise \<open>TypeError\<close> before the gateway's body runs.
\<close>

fun type_name :: "json \<Rightarrow> string" where
  "type_name JNull = ''NoneType''"
| "type_name (JBool b) = ''bool''"
| "type_name (JNum n) = ''int''"
| "type_name (JStr s) = ''str''"
| "type_name (JArr xs) = ''list''"
| "type_name (JObj kvs) = ''dict''"

fun missing_arguments :: "string list \<Rightarrow> string" where
  "missing_arguments [a] = ''1 required positional argument: '' @ quoted a"
| "missing_arguments [a, b] =
     ''2 required positional arguments: '' @ quoted a @ '' and '' @ quoted b"
| "missing_arguments [a, b, c] =
     ''3 required positional arguments: '' @ quoted a @ '', '' @ quoted b @ '', and '' @ quoted c"
| "missing_arguments xs = []"

definition bind_keywords :: "json \<Rightarrow> exn + json \<times> json \<times> json" where
  "bind_keywords args =
     (case args of
        JObj kvs \<Rightarrow>
          (case find (\<lambda>k. k \<notin> {''resource'', ''method'', ''params''}) (map fst kvs) of
             Some k \<Rightarrow>
               Inl (Exn TypeError
                 (''calendar_api_call() got an unexpected keyword argument '' @ quoted k))
           | None \<Rightarrow>
               (case (map_of kvs ''resource'', map_of kvs ''method'', map_of kvs ''params'') of
                  (Some resource, Some method, Some params) \<Rightarrow> Inr (resource, method, params)
                | _ \<Rightarrow>
                    Inl (Exn TypeError
                      (''calendar_api_call() missing '' @
                       missing_arguments
                         (filter (\<lambda>k. map_of kvs k = None)
                            [''resource'', ''method'', ''params'']))))
           )
      | _ \<Rightarrow>
          Inl (Exn TypeError
            (''calendar_api_call() argument after ** must be a mapping, not '' @
             type_name args)))"

definition call_function :: "env \<Rightarrow> string \<Rightarrow> json \<Rightarrow> world \<Rightarrow> (exn + json) \<times> world" where
  "call_function env name args =
     (if name = ''calendar_api_call''
      then (case bind_keywords args of
              Inl e \<Rightarrow> raise_io e
            | Inr (resource, method, params) \<Rightarrow>
                calendar_api_call Conversational env resource method params)
      else return_io (error_dict (''Function '' @ quoted name @ '' not implemented.'')))"

text \<open>
  The tool-call round of the driver has no bound, so the function is partial: a run
  that never ends has the value \<open>None\<close>. The request to the model carries the
  history; the model name, the tool schema and the tool choice are constants.
\<close>

definition wants_tool :: "chat_message \<Rightarrow> bool" where
  "wants_tool message =
     (role message = ''assistant'' \<and> tool_calls message \<noteq> None \<and> tool_calls message \<noteq> Some [])"

definition create :: "env \<Rightarrow> world \<Rightarrow> (exn + response) \<times> world" where
  "create env w =
     ext (ChatCreate (input_messages w))
       (\<lambda>h. chat_completions_create env h (input_messages w)) w"

definition append_message :: "message_dict \<Rightarrow> world \<Rightarrow> world" where
  "append_message d w = w\<lparr>input_messages := input_messages w @ [d]\<rparr>"

partial_function (option) process_response ::
  "env \<Rightarrow> response \<Rightarrow> world \<Rightarrow> ((exn + string) \<times> world) option" where
  "process_response env response w =
     (case find wants_tool (choices response) of
        Some message \<Rightarrow>
          (case tool_calls message of
             Some (call # others) \<Rightarrow>
               (let name = function_name call in
                case json_loads env
                       (case function_arguments call of
                          None \<Rightarrow> ''{}''
                        | Some a \<Rightarrow> if a = [] then ''{}'' else a) of
                  Inl e \<Rightarrow> Some (Inl e, w)
                | Inr args \<Rightarrow>
                    (case call_function env name args w of
                       (Inl e, w1) \<Rightarrow> Some (Inl e, w1)
                     | (Inr result, w1) \<Rightarrow>
                         (let w2 = append_message (AssistantMessage [] (call # others)) w1;
                              w3 = append_message
                                     (ToolMessage name (call_id call) (json_dumps env result)) w2
                          in case create env w3 of
                               (Inl e, w4) \<Rightarrow> Some (Inl e, w4)
                             | (Inr new_resp, w4) \<Rightarrow> process_response env new_resp w4)))
           | _ \<Rightarrow> Some (Inl (Exn IndexError ''list index out of range''), w))
      | None \<Rightarrow>
          (case choices response of
             [] \<Rightarrow> Some (Inl (Exn IndexError ''list index out of range''), w)
           | message # others \<Rightarrow>
               Some (Inr (case content message of None \<Rightarrow> [] | Some text \<Rightarrow> text), w)))"

declare process_response.simps [code]

definition chat_with_agent ::
  "env \<Rightarrow> string \<Rightarrow> world \<Rightarrow> ((exn + string) \<times> world) option" where
  "chat_with_agent env user_input w =
     (case create env (append_message (UserMessage user_input) w) of
        (Inl e, w1) \<Rightarrow> Some (Inl e, w1)
      | (Inr response, w1) \<Rightarrow> process_response env response w1)"

section \<open>Dates and times\<close>

definition is_leap :: "nat \<Rightarrow> bool" where
  "is_leap y = (y mod 4 = 0 \<and> (y mod 100 \<noteq> 0 \<or> y mod 400 = 0))"

definition days_in_month :: "nat \<Rightarrow> nat \<Rightarrow> nat" where
  "days_in_month y m =
     (if m = 2 then (if is_leap y then 29 else 28)
      else if m = 4 \<or> m = 6 \<or> m = 9 \<or> m = 11 then 30 else 31)"

definition MAXYEAR :: nat where
  "MAXYEAR = 9999"

definition wf_datetime :: "datetime \<Rightarrow> bool" where
  "wf_datetime dt =
     (1 \<le> year dt \<and> year dt \<le> MAXYEAR \<and> 1 \<le> month dt \<and> month dt \<le> 12 \<and>
      1 \<le> day dt \<and> day dt \<le> days_in_month (year dt) (month dt) \<and>
      hour dt < 24 \<and> minute dt < 60 \<and> second dt < 60 \<and> microsecond dt < 1000000)"

text \<open>\<^verbatim>\<open>dt + timedelta(days=1)\<close> and \<^verbatim>\<open>dt + timedelta(hours=1)\<close>: past the last
  day of year 9999 the addition raises \<open>OverflowError\<close>.\<close>

definition plus_one_day :: "datetime \<Rightarrow> exn + datetime" where
  "plus_one_day dt =
     (if day dt < days_in_month (year dt) (month dt) then Inr (dt\<lparr>day := day dt + 1\<rparr>)
      else if month dt < 12 then Inr (dt\<lparr>month := month dt + 1, day := 1\<rparr>)
      else if year dt < MAXYEAR then Inr (dt\<lparr>year := year dt + 1, month := 1, day := 1\<rparr>)
      else Inl (Exn OverflowError ''date value out of range''))"


text \<open>The position on the time line: the proleptic Gregorian ordinal of the date (day 1
  is 0001-01-01), and the microseconds since the start of that day 1.\<close>

definition days_before_year :: "nat \<Rightarrow> int" where
  "days_before_year y =
     int (y - 1) * 365 + int ((y - 1) div 4) - int ((y - 1) div 100) + int ((y - 1) div 400)"

definition days_before_month :: "nat \<Rightarrow> nat \<Rightarrow> int" where
  "days_before_month y m =
     [0, 31, 59, 90, 120, 151, 181, 212, 243, 273, 304, 334] ! (m - 1) +
     (if 2 < m \<and> is_leap y then 1 else 0)"

definition toordinal :: "datetime \<Rightarrow> int" where
  "toordinal dt =
     days_before_year (year dt) + days_before_month (year dt) (month dt) + int (day dt)"

definition microseconds :: "datetime \<Rightarrow> int" where
  "microseconds dt =
     ((((toordinal dt - 1) * 24 + int (hour dt)) * 60 + int (minute dt)) * 60 +
        int (second dt)) * 1000000 + int (microsecond dt)"

text \<open>\<^verbatim>\<open>str(dt.date())\<close> and \<^verbatim>\<open>dt.isoformat()\<close> of an aware datetime in UTC.\<close>

definition digit :: "nat \<Rightarrow> char" where
  "digit n = ''0123456789'' ! (n mod 10)"

definition two_digits :: "nat \<Rightarrow> string" where
  "two_digits n = [digit (n div 10), digit n]"

definition four_digits :: "nat \<Rightarrow> string" where
  "four_digits n = [digit (n div 1000), digit (n div 100), digit (n div 10), digit n]"

definition six_digits :: "nat \<Rightarrow> string" where
  "six_digits n = two_digits (n div 10000) @ four_digits n"

definition date_isoformat :: "datetime \<Rightarrow> string" where
  "date_isoformat dt =
     four_digits (year dt) @ ''-'' @ two_digits (month dt) @ ''-'' @ two_digits (day dt)"

definition isoformat :: "datetime \<Rightarrow> string" where
  "isoformat dt =
     date_isoformat dt @ ''T'' @ two_digits (hour dt) @ '':'' @ two_digits (minute dt) @
     '':'' @ two_digits (second dt) @
     (if microsecond dt = 0 then [] else ''.'' @ six_digits (microsecond dt)) @ ''+00:00''"

text \<open>
  \<^verbatim>\<open>datetime.fromisoformat(s)\<close> on a string of ten characters that matched
  \<^verbatim>\<open>DATE_REGEX\<close>: year, month and day are read from their columns and checked
  against the calendar; the time is midnight.
\<close>

definition digit_value :: "char \<Rightarrow> nat" where
  "digit_value c = of_char c - 48"

definition number :: "string \<Rightarrow> nat" where
  "number s = foldl (\<lambda>n c. 10 * n + digit_value c) 0 s"

definition fromisoformat_date :: "string \<Rightarrow> exn + datetime" where
  "fromisoformat_date s =
     (let y = number (take 4 s); m = number (take 2 (drop 5 s)); d = number (take 2 (drop 8 s))
      in if length s \<noteq> 10 then Inl (Exn ValueError (''Invalid isoformat string: '' @ quoted s))
         else if y < 1 then Inl (Exn ValueError (''year '' @ four_digits y @ '' is out of range''))
         else if m < 1 \<or> 12 < m then Inl (Exn ValueError ''month must be in 1..12'')
         else if d < 1 \<or> days_in_month y m < d
         then Inl (Exn ValueError ''day is out of range for month'')
         else Inr \<lparr>year = y, month = m, day = d, hour = 0, minute = 0, second = 0,
                   microsecond = 0\<rparr>)"

section \<open>Text\<close>

text \<open>The two patterns are sequences of single characters and one-or-more repetitions
  of a character class. \<^verbatim>\<open>$\<close> also matches before a final newline.\<close>

datatype char_class = Digit | Literal char | Except char

fun in_class :: "char_class \<Rightarrow> char \<Rightarrow> bool" where
  "in_class Digit c = (c \<in> set ''0123456789'')"
| "in_class (Literal a) c = (c = a)"
| "in_class (Except a) c = (c \<noteq> a)"

datatype item = One char_class | Many char_class

fun matches :: "item list \<Rightarrow> string \<Rightarrow> bool" where
  "matches [] s = (s = [])"
| "matches (One k # r) [] = False"
| "matches (One k # r) (c # s) = (in_class k c \<and> matches r s)"
| "matches (Many k # r) [] = False"
| "matches (Many k # r) (c # s) = (in_class k c \<and> (matches r s \<or> matches (Many k # r) s))"

definition re_match :: "item list \<Rightarrow> string \<Rightarrow> bool" where
  "re_match r s = (matches r s \<or> (s \<noteq> [] \<and> last s = CHR 0x0A \<and> matches r (butlast s)))"

definition DATE_REGEX :: "item list" where
  "DATE_REGEX =
     [One Digit, One Digit, One Digit, One Digit, One (Literal (CHR ''-'')),
      One Digit, One Digit, One (Literal (CHR ''-'')), One Digit, One Digit]"

definition EMAIL_REGEX :: "item list" where
  "EMAIL_REGEX =
     [Many (Except (CHR ''@'')), One (Literal (CHR ''@'')), Many (Except (CHR ''@'')),
      One (Literal (CHR ''.'')), Many (Except (CHR ''@''))]"

definition is_space :: "char \<Rightarrow> bool" where
  "is_space c =
     (c \<in> set [CHR 0x09, CHR 0x0A, CHR 0x0B, CHR 0x0C, CHR 0x0D,
               CHR 0x1C, CHR 0x1D, CHR 0x1E, CHR 0x1F, CHR 0x20, CHR 0x85, CHR 0xA0])"

definition strip :: "string \<Rightarrow> string" where
  "strip s = rev (dropWhile is_space (rev (dropWhile is_space s)))"

fun split :: "char \<Rightarrow> string \<Rightarrow> string list" where
  "split sep [] = [[]]"
| "split sep (c # s) =
     (if c = sep then [] # split sep s
      else (case split sep s of p # ps \<Rightarrow> (c # p) # ps | [] \<Rightarrow> [[c]]))"

section \<open>Menu Driver\<close>

text \<open>\<^verbatim>\<open>input(prompt)\<close> reads the next line; at the end of the input it raises
  \<open>EOFError\<close>.\<close>

definition input :: "string \<Rightarrow> world \<Rightarrow> (exn + string) \<times> world" where
  "input prompt w =
     (case stdin w of
        [] \<Rightarrow> (Inl (Exn EOFError ''EOF when reading a line''), emit (Prompt prompt) w)
      | line # rest \<Rightarrow> (Inr line, emit (Prompt prompt) (w\<lparr>stdin := rest\<rparr>)))"

function prompt_date :: "string \<Rightarrow> world \<Rightarrow> (exn + datetime) \<times> world" where
  "prompt_date prompt w =
     (case input (prompt @ '' (YYYY-MM-DD): '') w of
        (Inl e, w1) \<Rightarrow> (Inl e, w1)
      | (Inr line, w1) \<Rightarrow>
          (let s = strip line in
           if re_match DATE_REGEX s
           then (case fromisoformat_date s of
                   Inr dt \<Rightarrow> (Inr dt, w1)
                 | Inl e \<Rightarrow>
                     if exn_class_of e = ValueError
                     then prompt_date prompt
                            (emit (Log ERROR ''Invalid date (out of range). Try again.'') w1)
                     else (Inl e, w1))
           else prompt_date prompt
                  (emit (Log ERROR ''Wrong format. Please use YYYY-MM-DD.'') w1)))"
  by pat_completeness auto
termination
  by (relation "measure (\<lambda>(prompt, w). length (stdin w))")
    (auto simp: input_def emit_def split: list.splits)

function prompt_emails :: "world \<Rightarrow> (exn + json list) \<times> world" where
  "prompt_emails w =
     (case input ''Attendees emails (comma-separated, or leave blank): '' w of
        (Inl e, w1) \<Rightarrow> (Inl e, w1)
      | (Inr line, w1) \<Rightarrow>
          (let raw = strip line in
           if raw = [] then (Inr [], w1)
           else (let parts = map strip (split (CHR '','') raw) in
                 if list_all (re_match EMAIL_REGEX) parts
                 then (Inr (map (\<lambda>e. JObj [(''email'', JStr e)]) parts), w1)
                 else prompt_emails
                        (emit (Log ERROR ''One or more emails invalid. Please retry.'') w1))))"
  by pat_completeness auto
termination
  by (relation "measure (\<lambda>w. length (stdin w))")
    (auto simp: input_def emit_def split: list.splits)

declare prompt_date.simps [simp del] prompt_emails.simps [simp del]

text \<open>Names for two expressions of \<open>prompt_emails\<close>: the stripped entries of a line
  (\<^verbatim>\<open>[e.strip() for e in raw.split(",")]\<close>) and the attendee entry of an email.\<close>

definition attendee :: "string \<Rightarrow> json" where
  "attendee e = JObj [(''email'', JStr e)]"

definition entries :: "string \<Rightarrow> string list" where
  "entries line = map strip (split (CHR '','') (strip line))"

text \<open>The text of a list of entries written with a separator between them
  (\<^verbatim>\<open>sep.join(parts)\<close>): what a comma-separated line of entries is.\<close>

fun join :: "char \<Rightarrow> string list \<Rightarrow> string" where
  "join sep [] = []"
| "join sep [p] = p"
| "join sep (p # q # ps) = p @ sep # join sep (q # ps)"


text \<open>Dict and list operations on values that need not be dicts or lists.\<close>

definition py_get :: "json \<Rightarrow> string \<Rightarrow> json \<Rightarrow> exn + json" where
  "py_get d k dflt =
     (case d of
        JObj kvs \<Rightarrow> Inr (case map_of kvs k of None \<Rightarrow> dflt | Some x \<Rightarrow> x)
      | _ \<Rightarrow> Inl (Exn AttributeError
                 (quoted (type_name d) @ '' object has no attribute '' @ quoted ''get'')))"

definition py_getitem :: "json \<Rightarrow> string \<Rightarrow> exn + json" where
  "py_getitem d k =
     (case d of
        JObj kvs \<Rightarrow> (case map_of kvs k of None \<Rightarrow> Inl (Exn KeyError (quoted k)) | Some x \<Rightarrow> Inr x)
      | JArr xs \<Rightarrow> Inl (Exn TypeError ''list indices must be integers or slices, not str'')
      | JStr s \<Rightarrow> Inl (Exn TypeError (''string indices must be integers, not '' @ quoted ''str''))
      | _ \<Rightarrow> Inl (Exn TypeError (quoted (type_name d) @ '' object is not subscriptable'')))"

definition py_iter :: "json \<Rightarrow> exn + json list" where
  "py_iter x =
     (case x of
        JArr xs \<Rightarrow> Inr xs
      | JObj kvs \<Rightarrow> Inr (map (\<lambda>kv. JStr (fst kv)) kvs)
      | JStr s \<Rightarrow> Inr (map (\<lambda>c. JStr [c]) s)
      | _ \<Rightarrow> Inl (Exn TypeError (quoted (type_name x) @ '' object is not iterable'')))"

definition format_value :: "env \<Rightarrow> json \<Rightarrow> string" where
  "format_value env x = (case x of JStr s \<Rightarrow> s | _ \<Rightarrow> py_str env x)"

definition bullet :: string where
  "bullet = [CHR 0xE2, CHR 0x80, CHR 0xA2]"

definition dash :: string where
  "dash = [CHR 0xE2, CHR 0x80, CHR 0x94]"

definition lift :: "exn + 'a \<Rightarrow> world \<Rightarrow> (exn + 'a) \<times> world" where
  "lift r w = (r, w)"

fun print_events :: "env \<Rightarrow> json list \<Rightarrow> world \<Rightarrow> (exn + unit) \<times> world" where
  "print_events env [] = return_io ()"
| "print_events env (ev # evs) =
     bind_io (lift (py_getitem ev ''start'')) (\<lambda>start.
     bind_io (lift (py_get start ''date'' JNull)) (\<lambda>date.
     bind_io (lift (py_get start ''dateTime'' date)) (\<lambda>st.
     bind_io (lift (py_get ev ''summary'' (JStr ''(no title)''))) (\<lambda>summary.
     bind_io (logger INFO ('' '' @ bullet @ '' '' @ format_value env st @ '' '' @ dash @ '' '' @
                           format_value env summary)) (\<lambda>_.
     print_events env evs)))))"

definition fetch_events_for_date :: "env \<Rightarrow> datetime \<Rightarrow> world \<Rightarrow> (exn + unit) \<times> world" where
  "fetch_events_for_date env date_dt =
     (let start = isoformat date_dt in
      bind_io (lift (plus_one_day date_dt)) (\<lambda>next_dt.
      let end = isoformat next_dt;
          params = JObj [(''calendarId'', JStr ''primary''),
                         (''timeMin'', JStr start),
                         (''timeMax'', JStr end),
                         (''singleEvents'', JBool True),
                         (''orderBy'', JStr ''startTime'')]
      in bind_io (calendar_api_call Menu env (JStr ''events'') (JStr ''list'') params) (\<lambda>result.
         bind_io (lift (py_get result ''items'' (JArr []))) (\<lambda>items.
         if \<not> truthy items
         then logger INFO (''No events found on '' @ date_isoformat date_dt @ ''.'')
         else bind_io (logger INFO (''Events on '' @ date_isoformat date_dt @ '':'')) (\<lambda>_.
              bind_io (lift (py_iter items)) (\<lambda>evs.
              print_events env evs))))))"


section \<open>Observing the trace\<close>

text \<open>A computation that reads no input, leaves the history of the conversation alone,
  and adds to the trace only events that satisfy \<open>P\<close>.\<close>

definition only_emits :: "(effect \<Rightarrow> bool) \<Rightarrow> (world \<Rightarrow> (exn + 'a) \<times> world) \<Rightarrow> bool" where
  "only_emits P f =
     (\<forall>w. stdin (snd (f w)) = stdin w \<and> input_messages (snd (f w)) = input_messages w \<and>
          (\<exists>new. trace (snd (f w)) = trace w @ new \<and> list_all P new))"

fun is_chat_create :: "effect \<Rightarrow> bool" where
  "is_chat_create (ChatCreate h) = True"
| "is_chat_create ev = False"

section \<open>A concrete environment\<close>

text \<open>
  A token file with valid credentials, a calendar with no events that accepts every
  insert, and a model that asks for the day's events once and then answers in text.
\<close>

definition demo_credentials :: credentials where
  "demo_credentials = \<lparr>valid = True, expired = False, refresh_token = Some ''1//rt''\<rparr>"

definition dquoted :: "string \<Rightarrow> string" where
  "dquoted s = [CHR 0x22] @ s @ [CHR 0x22]"

definition demo_arguments :: string where
  "demo_arguments =
     ''{'' @ dquoted ''resource'' @ '': '' @ dquoted ''events'' @ '', '' @
     dquoted ''method'' @ '': '' @ dquoted ''list'' @ '', '' @
     dquoted ''params'' @ '': {}}''"

definition demo_tool_call :: tool_call where
  "demo_tool_call =
     \<lparr>call_id = ''call_1'', function_name = ''calendar_api_call'',
      function_arguments = Some demo_arguments\<rparr>"

definition demo_model :: "message_dict list \<Rightarrow> exn + response" where
  "demo_model history =
     (case last history of
        UserMessage text \<Rightarrow>
          Inr \<lparr>choices = [\<lparr>role = ''assistant'', content = None,
                             tool_calls = Some [demo_tool_call]\<rparr>]\<rparr>
      | _ \<Rightarrow>
          Inr \<lparr>choices = [\<lparr>role = ''assistant'', content = Some ''Nothing planned.'',
                             tool_calls = None\<rparr>]\<rparr>)"

definition demo_env :: env where
  "demo_env =
     \<lparr>path_exists = (\<lambda>h. True),
      from_authorized_user_file = (\<lambda>h. Inr demo_credentials),
      refresh = (\<lambda>h c. Inr (c\<lparr>valid := True, expired := False\<rparr>)),
      run_local_server = (\<lambda>h v. Inr demo_credentials),
      write_token = (\<lambda>h c. Inr ()),
      build = (\<lambda>h c. Inr (CalendarV3 c)),
      execute = (\<lambda>h s resource method params.
         if method = JStr ''list'' then Inr (JObj [(''items'', JArr [])])
         else Inr (JObj [(''id'', JStr ''ev1''), (''htmlLink'', JStr ''https://cal/ev1'')])),
      chat_completions_create = (\<lambda>h. demo_model),
      json_loads = (\<lambda>s.
         if s = demo_arguments
         then Inr (JObj [(''resource'', JStr ''events''), (''method'', JStr ''list''),
                         (''params'', JObj [])])
         else if s = ''{}'' then Inr (JObj [])
         else Inl (Exn ValueError ''Expecting value'')),
      json_dumps = (\<lambda>j.
         if j = JObj [(''items'', JArr [])] then ''{'' @ dquoted ''items'' @ '': []}''
         else ''null''),
      fromisoformat_astimezone_utc = (\<lambda>s.
         if s = ''2025-07-06T10:00''
         then Inr \<lparr>year = 2025, month = 7, day = 6, hour = 10, minute = 0, second = 0,
                    microsecond = 0\<rparr>
         else Inl (Exn ValueError (''Invalid isoformat string: '' @ quoted s))),
      py_str = (\<lambda>j. case j of JStr s \<Rightarrow> s | _ \<Rightarrow> ''None'')\<rparr>"

text \<open>The same environment without a token file, where the user refuses consent.\<close>

definition denied :: exn where
  "denied = Exn (OtherError ''AccessDeniedError'') ''(access_denied) The user denied the request''"

definition env_denied :: env where
  "env_denied = demo_env\<lparr>path_exists := \<lambda>h. False, run_local_server := \<lambda>h v. Inl denied\<rparr>"

text \<open>The same environment with a calendar service that refuses every request.\<close>

definition env_quota :: env where
  "env_quota =
     demo_env\<lparr>execute := \<lambda>h s r m p. Inl (Exn (OtherError ''HttpError'') ''quotaExceeded'')\<rparr>"

text \<open>Some dates and times: 2025-07-06, the last day of year 9999, and half past
  eleven in the evening of the last day of 2025, which the parser of the last
  environment returns.\<close>

definition july_6 :: datetime where
  "july_6 = \<lparr>year = 2025, month = 7, day = 6, hour = 0, minute = 0, second = 0,
             microsecond = 0\<rparr>"

definition last_day :: datetime where
  "last_day = \<lparr>year = 9999, month = 12, day = 31, hour = 0, minute = 0, second = 0,
               microsecond = 0\<rparr>"





fun is_log :: "effect \<Rightarrow> bool" where
  "is_log (Log l s) = True"
| "is_log ev = False"

text \<open>A line of three emails with padding, one of them a no-break space.\<close>

definition three_emails :: string where
  "three_emails = '' a@b.c ,d@e.f,'' @ [CHR 0xA0] @ ''g@h.i ''"

definition demo_world :: world where
  "demo_world =
     \<lparr>stdin = [], input_messages = [SystemMessage ''Act as an assistant''], trace = []\<rparr>"

section \<open>The whitelist\<close>

text \<open>
  C1. For every pair of strings (resource, method) with the resource other than
  "events", or the method outside the variant's allowed set (list, insert, update,
  delete for the conversational variant; list, insert for the menu variant), the
  gateway returns exactly the mapping error: "Method or resource not allowed." and
  leaves the world as it was: the trace gains no event, so there is no credential
  access and no network call.
\<close>

theorem calendar_api_call_rejects:
  "(r \<noteq> ''events'' \<or> m \<notin> {''list'', ''insert'', ''update'', ''delete''} \<longrightarrow>
      calendar_api_call Conversational env (JStr r) (JStr m) params w =
        (Inr (JObj [(''error'', JStr ''Method or resource not allowed.'')]), w)) \<and>
   (r \<noteq> ''events'' \<or> m \<notin> {''list'', ''insert''} \<longrightarrow>
      calendar_api_call Menu env (JStr r) (JStr m) params w =
        (Inr (JObj [(''error'', JStr ''Method or resource not allowed.'')]), w))"
  by (auto simp: calendar_api_call_def bind_io_def return_io_def error_dict_def
      ALLOWED_RESOURCES_def)

theorem calendar_api_call_rejects_witness:
  "calendar_api_call Conversational demo_env (JStr ''calendars'') (JStr ''list'') (JObj [])
     demo_world =
     (Inr (JObj [(''error'', JStr ''Method or resource not allowed.'')]), demo_world) \<and>
   calendar_api_call Menu demo_env (JStr ''events'') (JStr ''delete'') (JObj [])
     demo_world =
     (Inr (JObj [(''error'', JStr ''Method or resource not allowed.'')]), demo_world)"
  using calendar_api_call_rejects [where r = "''calendars''" and m = "''list''"
      and env = demo_env and params = "JObj []" and w = demo_world]
    calendar_api_call_rejects [where r = "''events''" and m = "''delete''"
      and env = demo_env and params = "JObj []" and w = demo_world]
  by simp

section \<open>Exceptions at the gateway\<close>

lemma try_body_cases:
  "m \<in> ALLOWED_METHODS v \<Longrightarrow>
   calendar_api_call v env (JStr ''events'') (JStr m) params w =
     try_except_Exception
       (bind_io (get_calendar_service v env) (\<lambda>service.
          ext (Execute (JStr ''events'') (JStr m) params)
            (\<lambda>h. execute env h service (JStr ''events'') (JStr m) params)))
       (\<lambda>e. bind_io (logger ERROR (cross_mark @ '' Calendar API error: '' @ str_exn e)) (\<lambda>_.
              return_io (error_dict (str_exn e)))) w"
  by (simp add: calendar_api_call_def bind_io_def ALLOWED_RESOURCES_def)

text \<open>
  C2, as stated, fails: the handler is \<^verbatim>\<open>except Exception\<close>, and an exception
  outside that class passes through it. When the request is interrupted from the
  keyboard, the whitelisted call raises \<open>KeyboardInterrupt\<close> to its caller.
\<close>

theorem calendar_api_call_raises_KeyboardInterrupt:
  "calendar_api_call Conversational
     (demo_env\<lparr>execute := \<lambda>h s r m p. Inl (Exn KeyboardInterrupt [])\<rparr>)
     (JStr ''events'') (JStr ''list'') (JObj []) demo_world =
   (Inl (Exn KeyboardInterrupt []),
    demo_world\<lparr>trace := [PathExists, LoadCredentials, Build,
                           Execute (JStr ''events'') (JStr ''list'') (JObj [])]\<rparr>)"
  by (simp add: calendar_api_call_def get_calendar_service_def bind_io_def ext_def emit_def
      return_io_def try_except_Exception_def demo_env_def demo_world_def demo_credentials_def
      ALLOWED_RESOURCES_def)

text \<open>
  C2, amended. For every whitelisted call: an exception of class \<open>Exception\<close> raised
  while the service client is obtained, or while the request is executed, is caught,
  logged, and returned as the mapping error: str(e), so whatever the gateway raises to
  its caller is not of class \<open>Exception\<close>; an exception outside that class
  (\<open>KeyboardInterrupt\<close>, \<open>SystemExit\<close>) raised at either place is not caught and
  is raised to the caller, with no log line; and when nothing is raised the decoded
  response is returned.
\<close>

theorem calendar_api_call_catches_Exception:
  assumes "m \<in> ALLOWED_METHODS v"
  shows
   "(\<forall>e w1. get_calendar_service v env w = (Inl e, w1) \<and> is_Exception e \<longrightarrow>
       calendar_api_call v env (JStr ''events'') (JStr m) params w =
         (Inr (JObj [(''error'', JStr (str_exn e))]),
          emit (Log ERROR (cross_mark @ '' Calendar API error: '' @ str_exn e)) w1)) \<and>
    (\<forall>service e w1. get_calendar_service v env w = (Inr service, w1) \<and>
        execute env (trace w1) service (JStr ''events'') (JStr m) params = Inl e \<and>
        is_Exception e \<longrightarrow>
       calendar_api_call v env (JStr ''events'') (JStr m) params w =
         (Inr (JObj [(''error'', JStr (str_exn e))]),
          emit (Log ERROR (cross_mark @ '' Calendar API error: '' @ str_exn e))
            (emit (Execute (JStr ''events'') (JStr m) params) w1))) \<and>
    (\<forall>e w'. calendar_api_call v env (JStr ''events'') (JStr m) params w = (Inl e, w') \<longrightarrow>
       \<not> is_Exception e) \<and>
    (\<forall>e w1. get_calendar_service v env w = (Inl e, w1) \<and> \<not> is_Exception e \<longrightarrow>
       calendar_api_call v env (JStr ''events'') (JStr m) params w = (Inl e, w1)) \<and>
    (\<forall>service e w1. get_calendar_service v env w = (Inr service, w1) \<and>
        execute env (trace w1) service (JStr ''events'') (JStr m) params = Inl e \<and>
        \<not> is_Exception e \<longrightarrow>
       calendar_api_call v env (JStr ''events'') (JStr m) params w =
         (Inl e, emit (Execute (JStr ''events'') (JStr m) params) w1)) \<and>
    (\<forall>service result w1. get_calendar_service v env w = (Inr service, w1) \<and>
        execute env (trace w1) service (JStr ''events'') (JStr m) params = Inr result \<longrightarrow>
       calendar_api_call v env (JStr ''events'') (JStr m) params w =
         (Inr result, emit (Execute (JStr ''events'') (JStr m) params) w1)) \<and>
    \<not> is_Exception (Exn KeyboardInterrupt text) \<and> \<not> is_Exception (Exn SystemExit text)"
  using assms
  by (auto simp: try_body_cases try_except_Exception_def bind_io_def ext_def logger_def
      return_io_def error_dict_def split: prod.splits sum.splits if_splits)

theorem calendar_api_call_catches_Exception_witness:
  "calendar_api_call Menu
     (demo_env\<lparr>execute := \<lambda>h s r m p. Inl (Exn (OtherError ''HttpError'') ''quotaExceeded'')\<rparr>)
     (JStr ''events'') (JStr ''list'') (JObj []) demo_world =
   (Inr (JObj [(''error'', JStr ''quotaExceeded'')]),
    demo_world\<lparr>trace := [PathExists, LoadCredentials, Build,
                           Execute (JStr ''events'') (JStr ''list'') (JObj []),
                           Log ERROR (cross_mark @ '' Calendar API error: quotaExceeded'')]\<rparr>) \<and>
   calendar_api_call Menu
     (demo_env\<lparr>build := \<lambda>h c. Inl (Exn SystemExit ''1'')\<rparr>)
     (JStr ''events'') (JStr ''insert'') (JObj []) demo_world =
   (Inl (Exn SystemExit ''1''),
    demo_world\<lparr>trace := [PathExists, LoadCredentials, Build]\<rparr>)"
  using calendar_api_call_catches_Exception [where m = "''list''" and v = Menu
      and env = "demo_env\<lparr>execute :=
        \<lambda>h s r m p. Inl (Exn (OtherError ''HttpError'') ''quotaExceeded'')\<rparr>"
      and w = demo_world and params = "JObj []"]
    calendar_api_call_catches_Exception [where m = "''insert''" and v = Menu
      and env = "demo_env\<lparr>build := \<lambda>h c. Inl (Exn SystemExit ''1'')\<rparr>"
      and w = demo_world and params = "JObj []"]
  by (simp add: get_calendar_service_def bind_io_def ext_def emit_def
      return_io_def demo_env_def demo_world_def demo_credentials_def)

section \<open>Failure of the interactive flow\<close>

text \<open>
  C3, as stated, fails: the Credential Store is entered only from the gateway's
  \<^verbatim>\<open>try\<close> block. With no token file and a user who refuses consent, the gateway
  returns an error mapping to its caller; nothing is raised and the program goes on.
\<close>

theorem flow_failure_is_caught:
  "calendar_api_call Conversational env_denied (JStr ''events'') (JStr ''list'') (JObj [])
     demo_world =
   (Inr (JObj [(''error'', JStr ''(access_denied) The user denied the request'')]),
    demo_world\<lparr>trace := [PathExists, RunLocalServer Conversational,
        Log ERROR (cross_mark @
          '' Calendar API error: (access_denied) The user denied the request'')]\<rparr>)"
  by (simp add: calendar_api_call_def get_calendar_service_def bind_io_def ext_def emit_def
      return_io_def try_except_Exception_def demo_env_def demo_world_def env_denied_def
      denied_def logger_def error_dict_def ALLOWED_RESOURCES_def)

text \<open>
  C3, amended. When the interactive flow is reached (there is no token file, or the
  stored credentials are neither valid nor refreshable) and fails with e, then
  \<open>get_calendar_service\<close> has no handler: it raises e to the gateway, with nothing saved
  and no client built. The gateway catches e when it is of class \<open>Exception\<close> and
  returns the mapping error: str(e); only an exception outside that class goes on to
  the gateway's caller.
\<close>

theorem flow_failure_propagation:
  assumes "(\<not> path_exists env (trace w) \<and> w1 = emit PathExists w) \<or>
           (path_exists env (trace w) \<and>
            from_authorized_user_file env (trace w @ [PathExists]) = Inr c \<and>
            \<not> valid c \<and> \<not> (expired c \<and> refresh_token c \<noteq> None \<and> refresh_token c \<noteq> Some []) \<and>
            w1 = emit LoadCredentials (emit PathExists w))"
    and "run_local_server env (trace w1) v = Inl e"
  shows
   "get_calendar_service v env w = (Inl e, emit (RunLocalServer v) w1) \<and>
    (m \<in> ALLOWED_METHODS v \<longrightarrow>
       calendar_api_call v env (JStr ''events'') (JStr m) params w =
         (if is_Exception e
          then (Inr (JObj [(''error'', JStr (str_exn e))]),
                emit (Log ERROR (cross_mark @ '' Calendar API error: '' @ str_exn e))
                  (emit (RunLocalServer v) w1))
          else (Inl e, emit (RunLocalServer v) w1)))"
proof -
  have g: "get_calendar_service v env w = (Inl e, emit (RunLocalServer v) w1)"
    using assms
    by (auto simp: get_calendar_service_def bind_io_def ext_def emit_def return_io_def)
  show ?thesis
    using g
    by (auto simp: try_body_cases try_except_Exception_def bind_io_def logger_def
        return_io_def error_dict_def)
qed

theorem flow_failure_propagation_witness:
  "get_calendar_service Menu env_denied demo_world =
     (Inl denied, demo_world\<lparr>trace := [PathExists, RunLocalServer Menu]\<rparr>) \<and>
   calendar_api_call Menu env_denied (JStr ''events'') (JStr ''insert'') (JObj []) demo_world =
     (Inr (JObj [(''error'', JStr (str_exn denied))]),
      demo_world\<lparr>trace := [PathExists, RunLocalServer Menu,
        Log ERROR (cross_mark @ '' Calendar API error: '' @ str_exn denied)]\<rparr>)"
  using flow_failure_propagation [where env = env_denied and w = demo_world
      and ?w1.0 = "emit PathExists demo_world" and v = Menu and e = denied
      and m = "''insert''" and params = "JObj []"]
  by (simp add: env_denied_def demo_env_def demo_world_def emit_def denied_def)

section \<open>Keyword expansion in the Dispatcher\<close>

text \<open>
  C10. There are argument mappings for which the dispatch to the gateway raises
  \<open>TypeError\<close> instead of returning a value: every mapping that lacks one of the keys
  resource, method, params, and every mapping with a key other than these three. The
  exception is raised while the keywords are bound, outside the gateway's handler, and
  nothing else happens.
\<close>

theorem call_function_raises_TypeError:
  assumes "(\<exists>k \<in> {''resource'', ''method'', ''params''}. map_of kvs k = None) \<or>
           (\<exists>k \<in> fst ` set kvs. k \<notin> {''resource'', ''method'', ''params''})"
  shows "\<exists>msg. call_function env ''calendar_api_call'' (JObj kvs) w =
           (Inl (Exn TypeError msg), w)"
proof -
  have "\<exists>msg. bind_keywords (JObj kvs) = Inl (Exn TypeError msg)"
  proof (cases "find (\<lambda>k. k \<notin> {''resource'', ''method'', ''params''}) (map fst kvs)")
    case (Some k)
    then show ?thesis by (simp add: bind_keywords_def)
  next
    case None
    then have "\<forall>k \<in> fst ` set kvs. k \<in> {''resource'', ''method'', ''params''}"
      by (auto simp: find_None_iff)
    with assms have "\<exists>k \<in> {''resource'', ''method'', ''params''}. map_of kvs k = None"
      by blast
    then show ?thesis
      using None by (auto simp: bind_keywords_def split: option.splits)
  qed
  then show ?thesis
    by (auto simp: call_function_def raise_io_def)
qed

theorem call_function_raises_TypeError_witness:
  "(\<exists>msg. call_function demo_env ''calendar_api_call''
            (JObj [(''resource'', JStr ''events''), (''method'', JStr ''list'')]) demo_world =
          (Inl (Exn TypeError msg), demo_world)) \<and>
   (\<exists>msg. call_function demo_env ''calendar_api_call''
            (JObj [(''resource'', JStr ''events''), (''method'', JStr ''list''),
                   (''params'', JObj []), (''calendarId'', JStr ''primary'')]) demo_world =
          (Inl (Exn TypeError msg), demo_world))"
  using call_function_raises_TypeError [where env = demo_env and w = demo_world
      and kvs = "[(''resource'', JStr ''events''), (''method'', JStr ''list'')]"]
    call_function_raises_TypeError [where env = demo_env and w = demo_world
      and kvs = "[(''resource'', JStr ''events''), (''method'', JStr ''list''),
                  (''params'', JObj []), (''calendarId'', JStr ''primary'')]"]
  by simp

section \<open>Frame of the gateway\<close>

lemma only_emits_return: "only_emits P (return_io x)"
  by (simp add: only_emits_def return_io_def)

lemma only_emits_raise: "only_emits P (raise_io e)"
  by (simp add: only_emits_def raise_io_def)

lemma only_emits_lift: "only_emits P (lift r)"
  by (simp add: only_emits_def lift_def)

lemma only_emits_ext: "P ev \<Longrightarrow> only_emits P (ext ev oracle)"
  by (simp add: only_emits_def ext_def emit_def)

lemma only_emits_logger: "P (Log l s) \<Longrightarrow> only_emits P (logger l s)"
  by (simp add: only_emits_def logger_def emit_def)

lemma only_emits_bind:
  assumes "only_emits P m" and "\<And>x. only_emits P (f x)"
  shows "only_emits P (bind_io m f)"
  unfolding only_emits_def
proof (intro allI)
  fix w
  obtain r w1 where m: "m w = (r, w1)" by (cases "m w")
  from assms(1) m obtain n1 where 1: "stdin w1 = stdin w" "input_messages w1 = input_messages w"
    "trace w1 = trace w @ n1" "list_all P n1"
    by (fastforce simp: only_emits_def dest: spec [where x = w])
  show "stdin (snd (bind_io m f w)) = stdin w \<and>
        input_messages (snd (bind_io m f w)) = input_messages w \<and>
        (\<exists>new. trace (snd (bind_io m f w)) = trace w @ new \<and> list_all P new)"
  proof (cases r)
    case (Inl e)
    with m 1 show ?thesis by (simp add: bind_io_def)
  next
    case (Inr x)
    from assms(2) [of x] obtain n2 where 2: "stdin (snd (f x w1)) = stdin w1"
      "input_messages (snd (f x w1)) = input_messages w1"
      "trace (snd (f x w1)) = trace w1 @ n2" "list_all P n2"
      by (fastforce simp: only_emits_def dest: spec [where x = w1])
    with m 1 Inr show ?thesis by (simp add: bind_io_def)
  qed
qed

lemma only_emits_try:
  assumes "only_emits P m" and "\<And>e. only_emits P (h e)"
  shows "only_emits P (try_except_Exception m h)"
  unfolding only_emits_def
proof (intro allI)
  fix w
  obtain r w1 where m: "m w = (r, w1)" by (cases "m w")
  from assms(1) m obtain n1 where 1: "stdin w1 = stdin w" "input_messages w1 = input_messages w"
    "trace w1 = trace w @ n1" "list_all P n1"
    by (fastforce simp: only_emits_def dest: spec [where x = w])
  show "stdin (snd (try_except_Exception m h w)) = stdin w \<and>
        input_messages (snd (try_except_Exception m h w)) = input_messages w \<and>
        (\<exists>new. trace (snd (try_except_Exception m h w)) = trace w @ new \<and> list_all P new)"
  proof (cases r)
    case (Inr x)
    with m 1 show ?thesis by (simp add: try_except_Exception_def)
  next
    case (Inl e)
    from assms(2) [of e] obtain n2 where 2: "stdin (snd (h e w1)) = stdin w1"
      "input_messages (snd (h e w1)) = input_messages w1"
      "trace (snd (h e w1)) = trace w1 @ n2" "list_all P n2"
      by (fastforce simp: only_emits_def dest: spec [where x = w1])
    with m 1 Inl show ?thesis by (simp add: try_except_Exception_def)
  qed
qed

lemma only_emits_if:
  "(b \<Longrightarrow> only_emits P f) \<Longrightarrow> (\<not> b \<Longrightarrow> only_emits P g) \<Longrightarrow> only_emits P (if b then f else g)"
  by simp

lemma only_emits_case_option:
  "only_emits P a \<Longrightarrow> (\<And>x. only_emits P (f x)) \<Longrightarrow> only_emits P (case_option a f x)"
  by (cases x) simp_all

lemma only_emits_case_sum:
  "(\<And>x. only_emits P (f x)) \<Longrightarrow> (\<And>x. only_emits P (g x)) \<Longrightarrow> only_emits P (case_sum f g x)"
  by (cases x) simp_all

lemma only_emits_save_credentials:
  "P (WriteToken creds) \<Longrightarrow> (\<And>l s. P (Log l s)) \<Longrightarrow> only_emits P (save_credentials env creds)"
  unfolding save_credentials_def
  by (intro only_emits_bind only_emits_ext only_emits_logger)

lemma only_emits_get_calendar_service:
  assumes "\<And>ev. is_credential_access ev \<Longrightarrow> P ev" "P Build" "\<And>l s. P (Log l s)"
  shows "only_emits P (get_calendar_service v env)"
proof -
  have P: "P PathExists" "P LoadCredentials" "P Refresh" "P (RunLocalServer v)"
    "\<And>c. P (WriteToken c)"
    by (simp_all add: assms(1))
  show ?thesis
    unfolding get_calendar_service_def Let_def
    by (intro only_emits_bind only_emits_ext only_emits_logger only_emits_if only_emits_return
        only_emits_save_credentials only_emits_case_option P assms(2) assms(3))
qed

lemma only_emits_calendar_api_call:
  assumes "\<And>ev. is_credential_access ev \<Longrightarrow> P ev" "P Build" "\<And>l s. P (Log l s)"
    "P (Execute resource method params)"
  shows "only_emits P (calendar_api_call v env resource method params)"
proof -
  have "only_emits P (\<lambda>w. (x, w))" for x :: "exn + bool"
    by (simp add: only_emits_def)
  then show ?thesis
    unfolding calendar_api_call_def
    by (intro only_emits_bind only_emits_if only_emits_return only_emits_try only_emits_ext
        only_emits_logger only_emits_get_calendar_service assms)
qed

lemma only_emits_call_function:
  assumes "\<And>ev. is_credential_access ev \<Longrightarrow> P ev" "P Build" "\<And>l s. P (Log l s)"
    "\<And>r m p. P (Execute r m p)"
  shows "only_emits P (call_function env name args)"
  unfolding call_function_def
  by (intro only_emits_if only_emits_case_sum only_emits_raise only_emits_return)
    (auto intro!: only_emits_calendar_api_call assms)

section \<open>One round of the tool-call loop\<close>

lemma call_function_frame:
  assumes "call_function env name args w = (r, w')"
  shows "input_messages w' = input_messages w \<and>
         (\<exists>new. trace w' = trace w @ new \<and> list_all (\<lambda>ev. \<not> is_chat_create ev) new)"
proof -
  have "only_emits (\<lambda>ev. \<not> is_chat_create ev) (call_function env name args)"
    by (rule only_emits_call_function) (auto elim: is_credential_access.elims)
  with assms show ?thesis
    by (fastforce simp: only_emits_def dest: spec [where x = w])
qed

text \<open>
  C4. In a conversational turn where the model's first reply holds a tool call and the
  second reply, requested after the tool result was appended, holds none: the driver
  returns the text of the second reply; the history sent with the second request is the
  history of the first request followed by exactly two messages, the assistant message
  with the tool calls and the tool message with the call id and the JSON-encoded
  result; between the two requests to the model only the first call of the reply is
  dispatched, and nothing is asked of the model.
\<close>

theorem chat_with_agent_one_tool_round:
  assumes h1: "h1 = input_messages w @ [UserMessage u]"
    and first: "chat_completions_create env (trace w) h1 = Inr resp1"
    and tool: "find wants_tool (choices resp1) = Some message"
    and calls: "tool_calls message = Some (call # others)"
    and args: "json_loads env (case function_arguments call of
                                 None \<Rightarrow> ''{}''
                               | Some a \<Rightarrow> if a = [] then ''{}'' else a) = Inr args"
    and dispatch: "call_function env (function_name call) args
                     (w\<lparr>input_messages := h1, trace := trace w @ [ChatCreate h1]\<rparr>) =
                   (Inr result, w2)"
    and h2: "h2 = h1 @ [AssistantMessage [] (call # others),
                        ToolMessage (function_name call) (call_id call)
                          (json_dumps env result)]"
    and second: "chat_completions_create env (trace w2) h2 = Inr resp2"
    and plain: "find wants_tool (choices resp2) = None"
    and reply: "choices resp2 = reply # rest"
  shows "chat_with_agent env u w =
           Some (Inr (case content reply of None \<Rightarrow> [] | Some text \<Rightarrow> text),
                 w2\<lparr>input_messages := h2, trace := trace w2 @ [ChatCreate h2]\<rparr>) \<and>
         input_messages w2 = h1 \<and>
         (\<exists>tool_effects. trace w2 = trace w @ [ChatCreate h1] @ tool_effects \<and>
            list_all (\<lambda>ev. \<not> is_chat_create ev) tool_effects)"
proof -
  let ?w1 = "w\<lparr>input_messages := h1, trace := trace w @ [ChatCreate h1]\<rparr>"
  let ?w4 = "w2\<lparr>input_messages := h2, trace := trace w2 @ [ChatCreate h2]\<rparr>"
  from call_function_frame [OF dispatch]
  have frame: "input_messages w2 = h1"
    and effects: "\<exists>new. trace w2 = trace w @ [ChatCreate h1] @ new \<and>
                   list_all (\<lambda>ev. \<not> is_chat_create ev) new"
    by auto
  have start: "create env (append_message (UserMessage u) w) = (Inr resp1, ?w1)"
    using first h1 by (simp add: create_def append_message_def ext_def emit_def)
  have again: "create env
                 (append_message (ToolMessage (function_name call) (call_id call)
                    (json_dumps env result))
                   (append_message (AssistantMessage [] (call # others)) w2)) =
               (Inr resp2, ?w4)"
    using second h2 frame by (simp add: create_def append_message_def ext_def emit_def)
  have final: "process_response env resp2 ?w4 =
                 Some (Inr (case content reply of None \<Rightarrow> [] | Some text \<Rightarrow> text), ?w4)"
    by (subst process_response.simps, simp only: plain option.case) (simp add: reply)
  have round: "process_response env resp1 ?w1 = process_response env resp2 ?w4"
    by (subst process_response.simps) (simp add: tool calls args dispatch again Let_def)
  have "chat_with_agent env u w =
          Some (Inr (case content reply of None \<Rightarrow> [] | Some text \<Rightarrow> text), ?w4)"
    by (simp add: chat_with_agent_def start round final)
  with frame effects show ?thesis by simp
qed

theorem chat_with_agent_one_tool_round_witness:
  "chat_with_agent demo_env ''What is on my calendar tomorrow?'' demo_world =
     Some (Inr ''Nothing planned.'',
       \<lparr>stdin = [],
        input_messages =
          [SystemMessage ''Act as an assistant'',
           UserMessage ''What is on my calendar tomorrow?'',
           AssistantMessage [] [demo_tool_call],
           ToolMessage ''calendar_api_call'' ''call_1'' (''{'' @ dquoted ''items'' @ '': []}'')],
        trace =
          [ChatCreate [SystemMessage ''Act as an assistant'',
                       UserMessage ''What is on my calendar tomorrow?''],
           PathExists, LoadCredentials, Build,
           Execute (JStr ''events'') (JStr ''list'') (JObj []),
           ChatCreate [SystemMessage ''Act as an assistant'',
                       UserMessage ''What is on my calendar tomorrow?'',
                       AssistantMessage [] [demo_tool_call],
                       ToolMessage ''calendar_api_call'' ''call_1''
                         (''{'' @ dquoted ''items'' @ '': []}'')]]\<rparr>)"
proof -
  let ?u = "''What is on my calendar tomorrow?''"
  let ?h1 = "[SystemMessage ''Act as an assistant'', UserMessage ?u]"
  let ?reply1 = "\<lparr>role = ''assistant'', content = None, tool_calls = Some [demo_tool_call]\<rparr>"
  let ?reply2 = "\<lparr>role = ''assistant'', content = Some ''Nothing planned.'',
                  tool_calls = None\<rparr>"
  let ?args = "JObj [(''resource'', JStr ''events''), (''method'', JStr ''list''),
                     (''params'', JObj [])]"
  let ?result = "JObj [(''items'', JArr [])]"
  let ?w2 = "\<lparr>stdin = [], input_messages = ?h1,
              trace = [ChatCreate ?h1, PathExists, LoadCredentials, Build,
                       Execute (JStr ''events'') (JStr ''list'') (JObj [])]\<rparr>"
  let ?h2 = "?h1 @ [AssistantMessage [] [demo_tool_call],
                    ToolMessage (function_name demo_tool_call) (call_id demo_tool_call)
                      (json_dumps demo_env ?result)]"
  have h1: "?h1 = input_messages demo_world @ [UserMessage ?u]"
    by (simp add: demo_world_def)
  have first: "chat_completions_create demo_env (trace demo_world) ?h1 =
                 Inr \<lparr>choices = [?reply1]\<rparr>"
    by (simp add: demo_env_def demo_model_def)
  have tool: "find wants_tool (choices \<lparr>choices = [?reply1]\<rparr>) = Some ?reply1"
    by (simp add: wants_tool_def)
  have calls: "tool_calls ?reply1 = Some (demo_tool_call # [])"
    by simp
  have args: "json_loads demo_env
                (case function_arguments demo_tool_call of
                   None \<Rightarrow> ''{}''
                 | Some a \<Rightarrow> if a = [] then ''{}'' else a) = Inr ?args"
    by (simp add: demo_env_def demo_tool_call_def demo_arguments_def dquoted_def)
  have dispatch: "call_function demo_env (function_name demo_tool_call) ?args
                    (demo_world\<lparr>input_messages := ?h1,
                                 trace := trace demo_world @ [ChatCreate ?h1]\<rparr>) =
                  (Inr ?result, ?w2)"
    by (simp add: call_function_def bind_keywords_def calendar_api_call_def
        get_calendar_service_def bind_io_def ext_def emit_def return_io_def
        try_except_Exception_def demo_env_def demo_world_def demo_credentials_def
        demo_tool_call_def ALLOWED_RESOURCES_def)
  have second: "chat_completions_create demo_env (trace ?w2) ?h2 =
                  Inr \<lparr>choices = [?reply2]\<rparr>"
    by (simp add: demo_env_def demo_model_def)
  have plain: "find wants_tool (choices \<lparr>choices = [?reply2]\<rparr>) = None"
    by (simp add: wants_tool_def)
  have reply: "choices \<lparr>choices = [?reply2]\<rparr> = ?reply2 # []"
    by simp
  show ?thesis
    using chat_with_agent_one_tool_round
      [OF h1 first tool calls args dispatch refl second plain reply]
    by (simp add: demo_env_def demo_tool_call_def)
qed

section \<open>Attendees\<close>

lemma email_examples:
  "\<not> re_match EMAIL_REGEX ''bob@@x''" "\<not> re_match EMAIL_REGEX ''bob''"
  "re_match EMAIL_REGEX ''bob@example.org''"
  by (simp_all add: re_match_def EMAIL_REGEX_def)

lemma prompt_emails_valid:
  assumes "stdin w = line # rest" "strip line \<noteq> []"
    "list_all (re_match EMAIL_REGEX) (entries line)"
  shows "prompt_emails w =
           (Inr (map attendee (entries line)),
            emit (Prompt ''Attendees emails (comma-separated, or leave blank): '')
              (w\<lparr>stdin := rest\<rparr>))"
  using assms
  by (subst prompt_emails.simps) (simp add: input_def Let_def entries_def attendee_def)

lemma prompt_emails_invalid:
  assumes "stdin w = line # rest" "strip line \<noteq> []"
    "\<not> list_all (re_match EMAIL_REGEX) (entries line)"
  shows "prompt_emails w =
           prompt_emails
             (emit (Log ERROR ''One or more emails invalid. Please retry.'')
                (emit (Prompt ''Attendees emails (comma-separated, or leave blank): '')
                   (w\<lparr>stdin := rest\<rparr>)))"
  using assms
  by (subst prompt_emails.simps) (simp add: input_def Let_def entries_def)

lemma prompt_emails_blank:
  assumes "stdin w = line # rest" "strip line = []"
  shows "prompt_emails w =
           (Inr [], emit (Prompt ''Attendees emails (comma-separated, or leave blank): '')
              (w\<lparr>stdin := rest\<rparr>))"
  using assms
  by (subst prompt_emails.simps) (simp add: input_def Let_def)

lemma prompt_emails_eof:
  assumes "stdin w = []"
  shows "prompt_emails w =
           (Inl (Exn EOFError ''EOF when reading a line''),
            emit (Prompt ''Attendees emails (comma-separated, or leave blank): '') w)"
  using assms
  by (subst prompt_emails.simps) (simp add: input_def)

lemma prompt_emails_complete:
  "prompt_emails w = (Inr attendees, w') \<Longrightarrow>
   \<exists>line \<in> set (stdin w).
     (strip line = [] \<and> attendees = []) \<or>
     (strip line \<noteq> [] \<and> list_all (re_match EMAIL_REGEX) (entries line) \<and>
      attendees = map attendee (entries line))"
proof (induction "stdin w" arbitrary: w)
  case Nil
  then have "stdin w = []" by simp
  with Nil.prems show ?case by (simp add: prompt_emails_eof)
next
  case (Cons line rest)
  note st = Cons.hyps(2) [symmetric]
  show ?case
  proof (cases "strip line = []")
    case True
    with Cons.prems st show ?thesis by (auto simp: prompt_emails_blank)
  next
    case False
    show ?thesis
    proof (cases "list_all (re_match EMAIL_REGEX) (entries line)")
      case True
      with Cons.prems st False show ?thesis by (auto simp: prompt_emails_valid)
    next
      case bad: False
      let ?w = "emit (Log ERROR ''One or more emails invalid. Please retry.'')
                  (emit (Prompt ''Attendees emails (comma-separated, or leave blank): '')
                     (w\<lparr>stdin := rest\<rparr>))"
      have "prompt_emails ?w = (Inr attendees, w')"
        using Cons.prems prompt_emails_invalid [OF st False bad] by simp
      moreover have "rest = stdin ?w" by (simp add: emit_def)
      ultimately have "\<exists>line \<in> set (stdin ?w).
          (strip line = [] \<and> attendees = []) \<or>
          (strip line \<noteq> [] \<and> list_all (re_match EMAIL_REGEX) (entries line) \<and>
           attendees = map attendee (entries line))"
        using Cons.hyps(1) by blast
      then show ?thesis by (auto simp: st emit_def)
    qed
  qed
qed

lemma split_no_sep: "sep \<notin> set p \<Longrightarrow> split sep p = [p]"
  by (induction p) auto

lemma split_append_sep: "sep \<notin> set p \<Longrightarrow> split sep (p @ sep # s) = p # split sep s"
  by (induction p) auto

lemma split_join:
  "ps \<noteq> [] \<Longrightarrow> \<forall>p \<in> set ps. sep \<notin> set p \<Longrightarrow> split sep (join sep ps) = ps"
  by (induction sep ps rule: join.induct) (auto simp: split_no_sep split_append_sep)

lemma split_not_Nil: "split sep s \<noteq> []"
  by (induction s) (auto split: list.splits)

lemma join_split: "join sep (split sep s) = s"
proof (induction s)
  case Nil
  show ?case by simp
next
  case (Cons c s)
  obtain q qs where q: "split sep s = q # qs"
    using split_not_Nil [of sep s] by (cases "split sep s") auto
  with Cons show ?case by (cases qs) auto
qed

lemma split_parts_no_sep: "p \<in> set (split sep s) \<Longrightarrow> sep \<notin> set p"
  by (induction s arbitrary: p) (auto split: if_splits list.splits)

lemma strip_spec:
  assumes "list_all is_space a" "list_all is_space b"
    "e = [] \<or> (\<not> is_space (hd e) \<and> \<not> is_space (last e))"
  shows "strip (a @ e @ b) = e"
proof (cases "e = []")
  case True
  from assms(1,2) have "\<forall>x \<in> set (a @ b). is_space x"
    by (auto simp: list_all_iff)
  then have d: "dropWhile is_space (a @ b) = []"
    by (simp only: dropWhile_eq_Nil_conv)
  show ?thesis by (simp add: strip_def True d)
next
  case False
  with assms(3) have h: "\<not> is_space (hd e)" and l: "\<not> is_space (last e)" by auto
  from False h assms(1) have 1: "dropWhile is_space (a @ e @ b) = e @ b"
    by (cases e) (auto simp: list_all_iff dropWhile_append)
  from False l assms(2) have 2: "dropWhile is_space (rev b @ rev e) = rev e"
    by (cases e rule: rev_cases) (auto simp: list_all_iff dropWhile_append)
  show ?thesis by (simp add: strip_def 1 2)
qed

lemma matches_Many:
  "matches (Many k # r) s \<longleftrightarrow>
   (\<exists>a b. s = a @ b \<and> a \<noteq> [] \<and> (\<forall>c \<in> set a. in_class k c) \<and> matches r b)"
proof (induction s)
  case Nil
  show ?case by simp
next
  case (Cons c s)
  show ?case
  proof
    assume "matches (Many k # r) (c # s)"
    then have c: "in_class k c" and d: "matches r s \<or> matches (Many k # r) s" by auto
    from d show "\<exists>a b. c # s = a @ b \<and> a \<noteq> [] \<and> (\<forall>c \<in> set a. in_class k c) \<and> matches r b"
    proof
      assume "matches r s"
      with c have "c # s = [c] @ s \<and> [c] \<noteq> [] \<and> (\<forall>x \<in> set [c]. in_class k x) \<and> matches r s"
        by simp
      then show ?thesis by blast
    next
      assume "matches (Many k # r) s"
      with Cons obtain a b where "s = a @ b" "a \<noteq> []" "\<forall>c \<in> set a. in_class k c" "matches r b"
        by blast
      with c have "c # s = (c # a) @ b \<and> c # a \<noteq> [] \<and> (\<forall>x \<in> set (c # a). in_class k x) \<and>
                   matches r b"
        by simp
      then show ?thesis by blast
    qed
  next
    assume "\<exists>a b. c # s = a @ b \<and> a \<noteq> [] \<and> (\<forall>c \<in> set a. in_class k c) \<and> matches r b"
    then obtain a b where ab: "c # s = a @ b" "a \<noteq> []" "\<forall>c \<in> set a. in_class k c" "matches r b"
      by blast
    then obtain a' where a: "a = c # a'" "s = a' @ b" by (cases a) auto
    show "matches (Many k # r) (c # s)"
    proof (cases "a' = []")
      case True
      with a ab show ?thesis by simp
    next
      case False
      with a ab have "matches (Many k # r) s" using Cons by auto
      with a ab show ?thesis by simp
    qed
  qed
qed

lemma matches_at:
  "matches (One (Literal x) # r) s \<longleftrightarrow> (\<exists>t. s = x # t \<and> matches r t)"
  by (cases s) auto

lemma EMAIL_REGEX_matches:
  "matches EMAIL_REGEX e \<longleftrightarrow>
   (\<exists>l d t. e = l @ ''@'' @ d @ ''.'' @ t \<and> l \<noteq> [] \<and> d \<noteq> [] \<and> t \<noteq> [] \<and>
      CHR ''@'' \<notin> set l \<and> CHR ''@'' \<notin> set d \<and> CHR ''@'' \<notin> set t)"
  (is "?L \<longleftrightarrow> ?R")
proof
  assume ?L
  then obtain l b1 where 1: "e = l @ b1" "l \<noteq> []" "\<forall>c \<in> set l. c \<noteq> CHR ''@''"
    and m1: "matches [One (Literal (CHR ''@'')), Many (Except (CHR ''@'')),
                      One (Literal (CHR ''.'')), Many (Except (CHR ''@''))] b1"
    unfolding EMAIL_REGEX_def matches_Many [of _ "One (Literal (CHR ''@'')) # _"] by auto
  from m1 obtain b2 where 2: "b1 = CHR ''@'' # b2"
    and m2: "matches [Many (Except (CHR ''@'')), One (Literal (CHR ''.'')),
                      Many (Except (CHR ''@''))] b2"
    unfolding matches_at by blast
  from m2 obtain d b3 where 3: "b2 = d @ b3" "d \<noteq> []" "\<forall>c \<in> set d. c \<noteq> CHR ''@''"
    and m3: "matches [One (Literal (CHR ''.'')), Many (Except (CHR ''@''))] b3"
    unfolding matches_Many [of _ "One (Literal (CHR ''.'')) # _"] by auto
  from m3 obtain b4 where 4: "b3 = CHR ''.'' # b4"
    and m4: "matches [Many (Except (CHR ''@''))] b4"
    unfolding matches_at by blast
  from m4 have 5: "b4 \<noteq> []" "\<forall>c \<in> set b4. c \<noteq> CHR ''@''"
    unfolding matches_Many [of _ "[]"] by auto
  have "e = l @ ''@'' @ d @ ''.'' @ b4" by (simp add: 1 2 3 4)
  with 1 3 5 show ?R by blast
next
  assume ?R
  then obtain l d t where e: "e = l @ ''@'' @ d @ ''.'' @ t" and n: "l \<noteq> []" "d \<noteq> []" "t \<noteq> []"
    and a: "CHR ''@'' \<notin> set l" "CHR ''@'' \<notin> set d" "CHR ''@'' \<notin> set t"
    by blast
  have m4: "matches [Many (Except (CHR ''@''))] t"
    unfolding matches_Many [of _ "[]"] using n a by auto
  then have m3: "matches [One (Literal (CHR ''.'')), Many (Except (CHR ''@''))] (CHR ''.'' # t)"
    by simp
  have m2: "matches [Many (Except (CHR ''@'')), One (Literal (CHR ''.'')),
                    Many (Except (CHR ''@''))] (d @ CHR ''.'' # t)"
    unfolding matches_Many [of _ "One (Literal (CHR ''.'')) # _"] using n a m3 by fastforce
  then have m1: "matches [One (Literal (CHR ''@'')), Many (Except (CHR ''@'')),
                      One (Literal (CHR ''.'')), Many (Except (CHR ''@''))]
                   (CHR ''@'' # d @ CHR ''.'' # t)"
    by simp
  have "matches [Many (Except (CHR ''@'')), One (Literal (CHR ''@'')), Many (Except (CHR ''@'')),
                 One (Literal (CHR ''.'')), Many (Except (CHR ''@''))]
          (l @ CHR ''@'' # d @ CHR ''.'' # t)"
    unfolding matches_Many [of _ "One (Literal (CHR ''@'')) # _"] using n a m1 by fastforce
  then show ?L by (simp add: EMAIL_REGEX_def e)
qed

lemma EMAIL_REGEX_iff:
  "re_match EMAIL_REGEX e \<longleftrightarrow>
   (\<exists>l d t. e = l @ ''@'' @ d @ ''.'' @ t \<and> l \<noteq> [] \<and> d \<noteq> [] \<and> t \<noteq> [] \<and>
      CHR ''@'' \<notin> set l \<and> CHR ''@'' \<notin> set d \<and> CHR ''@'' \<notin> set t)"
proof -
  have "matches EMAIL_REGEX e" if "e \<noteq> []" "last e = CHR 0x0A" "matches EMAIL_REGEX (butlast e)"
  proof -
    from that(3) obtain l d t where b: "butlast e = l @ ''@'' @ d @ ''.'' @ t"
      and n: "l \<noteq> []" "d \<noteq> []" "t \<noteq> []"
      and a: "CHR ''@'' \<notin> set l" "CHR ''@'' \<notin> set d" "CHR ''@'' \<notin> set t"
      unfolding EMAIL_REGEX_matches by blast
    from that(1,2) have "e = butlast e @ [CHR 0x0A]"
      using append_butlast_last_id [of e] by simp
    with b have "e = l @ ''@'' @ d @ ''.'' @ (t @ [CHR 0x0A])" by simp
    moreover have "t @ [CHR 0x0A] \<noteq> []" "CHR ''@'' \<notin> set (t @ [CHR 0x0A])"
      using a by simp_all
    ultimately show ?thesis
      unfolding EMAIL_REGEX_matches using n a by blast
  qed
  then have "re_match EMAIL_REGEX e \<longleftrightarrow> matches EMAIL_REGEX e"
    by (auto simp: re_match_def)
  then show ?thesis by (simp only: EMAIL_REGEX_matches)
qed

lemma entries_join:
  assumes "strip line = join (CHR '','') parts" "parts \<noteq> []"
    "\<forall>p \<in> set parts. CHR '','' \<notin> set p"
  shows "entries line = map strip parts"
  using assms by (simp add: entries_def split_join)

text \<open>
  C8. The email pattern rejects "bob@@x" and "bob" and accepts "bob@example.org": it
  accepts exactly the texts with one at-sign, a non-empty part before it, and after it
  a dot with a non-empty part on each side. Stripping removes exactly the white space
  around a text. For a line whose stripped
  text is N entries with commas between them (no entry holds a comma): when every
  stripped entry validates, \<open>prompt_emails\<close> returns N attendee entries, the stripped
  entries in the order of the line; when one does not, the error is logged and the
  whole prompt is run again on the next line. Whatever list \<open>prompt_emails\<close> returns
  is empty (a blank line) or holds all the entries of one line whose entries all
  validate: never a part of a line.
\<close>

theorem prompt_emails_all_or_nothing:
  "\<not> re_match EMAIL_REGEX ''bob@@x'' \<and> \<not> re_match EMAIL_REGEX ''bob'' \<and>
   re_match EMAIL_REGEX ''bob@example.org'' \<and>
   (re_match EMAIL_REGEX address \<longleftrightarrow>
      (\<exists>l d t. address = l @ ''@'' @ d @ ''.'' @ t \<and> l \<noteq> [] \<and> d \<noteq> [] \<and> t \<noteq> [] \<and>
         CHR ''@'' \<notin> set l \<and> CHR ''@'' \<notin> set d \<and> CHR ''@'' \<notin> set t)) \<and>
   (list_all is_space a \<and> list_all is_space b \<and>
    (e = [] \<or> \<not> is_space (hd e) \<and> \<not> is_space (last e)) \<longrightarrow>
      strip (a @ e @ b) = e) \<and>
   (stdin w = line # rest \<and> strip line \<noteq> [] \<and> strip line = join (CHR '','') parts \<and>
    parts \<noteq> [] \<and> (\<forall>p \<in> set parts. CHR '','' \<notin> set p) \<and>
    list_all (\<lambda>p. re_match EMAIL_REGEX (strip p)) parts \<longrightarrow>
      prompt_emails w =
        (Inr (map (\<lambda>p. JObj [(''email'', JStr (strip p))]) parts),
         emit (Prompt ''Attendees emails (comma-separated, or leave blank): '')
           (w\<lparr>stdin := rest\<rparr>))) \<and>
   (stdin w = line # rest \<and> strip line \<noteq> [] \<and> strip line = join (CHR '','') parts \<and>
    parts \<noteq> [] \<and> (\<forall>p \<in> set parts. CHR '','' \<notin> set p) \<and>
    \<not> list_all (\<lambda>p. re_match EMAIL_REGEX (strip p)) parts \<longrightarrow>
      prompt_emails w =
        prompt_emails
          (emit (Log ERROR ''One or more emails invalid. Please retry.'')
             (emit (Prompt ''Attendees emails (comma-separated, or leave blank): '')
                (w\<lparr>stdin := rest\<rparr>)))) \<and>
   (prompt_emails w0 = (Inr attendees, w0') \<longrightarrow>
      (\<exists>line \<in> set (stdin w0). \<exists>parts.
         strip line = join (CHR '','') parts \<and> parts \<noteq> [] \<and>
         (\<forall>p \<in> set parts. CHR '','' \<notin> set p) \<and>
         ((strip line = [] \<and> attendees = []) \<or>
          (strip line \<noteq> [] \<and> list_all (\<lambda>p. re_match EMAIL_REGEX (strip p)) parts \<and>
           attendees = map (\<lambda>p. JObj [(''email'', JStr (strip p))]) parts))))"
proof (intro conjI impI)
  show "re_match EMAIL_REGEX address \<longleftrightarrow>
      (\<exists>l d t. address = l @ ''@'' @ d @ ''.'' @ t \<and> l \<noteq> [] \<and> d \<noteq> [] \<and> t \<noteq> [] \<and>
         CHR ''@'' \<notin> set l \<and> CHR ''@'' \<notin> set d \<and> CHR ''@'' \<notin> set t)"
    by (rule EMAIL_REGEX_iff)
  show "strip (a @ e @ b) = e"
    if "list_all is_space a \<and> list_all is_space b \<and>
        (e = [] \<or> \<not> is_space (hd e) \<and> \<not> is_space (last e))"
    using that by (simp add: strip_spec)
  show "prompt_emails w =
        (Inr (map (\<lambda>p. JObj [(''email'', JStr (strip p))]) parts),
         emit (Prompt ''Attendees emails (comma-separated, or leave blank): '')
           (w\<lparr>stdin := rest\<rparr>))"
    if h: "stdin w = line # rest \<and> strip line \<noteq> [] \<and> strip line = join (CHR '','') parts \<and>
      parts \<noteq> [] \<and> (\<forall>p \<in> set parts. CHR '','' \<notin> set p) \<and>
      list_all (\<lambda>p. re_match EMAIL_REGEX (strip p)) parts"
  proof -
    from h have a: "stdin w = line # rest" and b: "strip line \<noteq> []" by blast+
    from h have e: "entries line = map strip parts" by (simp add: entries_join)
    from h have "list_all (re_match EMAIL_REGEX) (entries line)"
      by (simp add: e list_all_iff)
    from prompt_emails_valid [OF a b this] have "prompt_emails w =
        (Inr (map attendee (entries line)),
         emit (Prompt ''Attendees emails (comma-separated, or leave blank): '')
           (w\<lparr>stdin := rest\<rparr>))" .
    then show ?thesis by (simp add: e attendee_def comp_def)
  qed
  show "prompt_emails w =
        prompt_emails
          (emit (Log ERROR ''One or more emails invalid. Please retry.'')
             (emit (Prompt ''Attendees emails (comma-separated, or leave blank): '')
                (w\<lparr>stdin := rest\<rparr>)))"
    if h: "stdin w = line # rest \<and> strip line \<noteq> [] \<and> strip line = join (CHR '','') parts \<and>
      parts \<noteq> [] \<and> (\<forall>p \<in> set parts. CHR '','' \<notin> set p) \<and>
      \<not> list_all (\<lambda>p. re_match EMAIL_REGEX (strip p)) parts"
  proof -
    from h have a: "stdin w = line # rest" and b: "strip line \<noteq> []" by blast+
    from h have e: "entries line = map strip parts" by (simp add: entries_join)
    from h have "\<not> list_all (re_match EMAIL_REGEX) (entries line)"
      by (simp add: e list_all_iff)
    from prompt_emails_invalid [OF a b this] show ?thesis .
  qed
  show "\<exists>line \<in> set (stdin w0). \<exists>parts.
         strip line = join (CHR '','') parts \<and> parts \<noteq> [] \<and>
         (\<forall>p \<in> set parts. CHR '','' \<notin> set p) \<and>
         ((strip line = [] \<and> attendees = []) \<or>
          (strip line \<noteq> [] \<and> list_all (\<lambda>p. re_match EMAIL_REGEX (strip p)) parts \<and>
           attendees = map (\<lambda>p. JObj [(''email'', JStr (strip p))]) parts))"
    if "prompt_emails w0 = (Inr attendees, w0')"
  proof -
    from prompt_emails_complete [OF that] obtain line where
      line: "line \<in> set (stdin w0)" and
      c: "(strip line = [] \<and> attendees = []) \<or>
          (strip line \<noteq> [] \<and> list_all (re_match EMAIL_REGEX) (entries line) \<and>
           attendees = map attendee (entries line))"
      by blast
    let ?parts = "split (CHR '','') (strip line)"
    have 1: "strip line = join (CHR '','') ?parts" by (simp add: join_split)
    have 2: "?parts \<noteq> []" by (rule split_not_Nil)
    have 3: "\<forall>p \<in> set ?parts. CHR '','' \<notin> set p" by (auto dest: split_parts_no_sep)
    from c have "(strip line = [] \<and> attendees = []) \<or>
          (strip line \<noteq> [] \<and> list_all (\<lambda>p. re_match EMAIL_REGEX (strip p)) ?parts \<and>
           attendees = map (\<lambda>p. JObj [(''email'', JStr (strip p))]) ?parts)"
      by (auto simp: entries_def attendee_def list_all_iff comp_def)
    with line 1 2 3 show ?thesis by blast
  qed
qed (rule email_examples)+

lemma strip_more_examples:
  "strip three_emails = ''a@b.c ,d@e.f,'' @ [CHR 0xA0] @ ''g@h.i''"
  "strip ''a@b.c '' = ''a@b.c''" "strip ''d@e.f'' = ''d@e.f''"
  "strip (CHR 0xA0 # ''g@h.i'') = ''g@h.i''"
  "strip ''bob@example.org,bob@@x,al@x.io'' = ''bob@example.org,bob@@x,al@x.io''"
  "strip ''bob@@x'' = ''bob@@x''" "strip ''al@x.io'' = ''al@x.io''"
  "strip ''bob@example.org'' = ''bob@example.org''"
  by (simp_all add: strip_def is_space_def three_emails_def)

theorem prompt_emails_all_or_nothing_witness:
  "prompt_emails (demo_world\<lparr>stdin := [three_emails, ''next'']\<rparr>) =
     (Inr [JObj [(''email'', JStr ''a@b.c'')], JObj [(''email'', JStr ''d@e.f'')],
           JObj [(''email'', JStr ''g@h.i'')]],
      demo_world\<lparr>stdin := [''next''],
        trace := [Prompt ''Attendees emails (comma-separated, or leave blank): '']\<rparr>) \<and>
   prompt_emails
     (demo_world\<lparr>stdin := [''bob@example.org,bob@@x,al@x.io'', ''bob@example.org'']\<rparr>) =
     (Inr [JObj [(''email'', JStr ''bob@example.org'')]],
      demo_world\<lparr>stdin := [],
        trace := [Prompt ''Attendees emails (comma-separated, or leave blank): '',
                  Log ERROR ''One or more emails invalid. Please retry.'',
                  Prompt ''Attendees emails (comma-separated, or leave blank): '']\<rparr>)"
  using prompt_emails_all_or_nothing
      [where w = "demo_world\<lparr>stdin := [three_emails, ''next'']\<rparr>"
        and address = "''x''" and line = three_emails and rest = "[''next'']"
        and parts = "[''a@b.c '', ''d@e.f'', [CHR 0xA0] @ ''g@h.i'']"]
    prompt_emails_all_or_nothing
      [where w = "demo_world\<lparr>stdin := [''bob@example.org,bob@@x,al@x.io'',
                                          ''bob@example.org'']\<rparr>"
        and address = "''x''" and line = "''bob@example.org,bob@@x,al@x.io''" and rest = "[''bob@example.org'']"
        and parts = "[''bob@example.org'', ''bob@@x'', ''al@x.io'']"]
    prompt_emails_all_or_nothing
      [where w = "emit (Log ERROR ''One or more emails invalid. Please retry.'')
             (emit (Prompt ''Attendees emails (comma-separated, or leave blank): '')
                (demo_world\<lparr>stdin := [''bob@example.org'']\<rparr>))"
        and address = "''x''" and line = "''bob@example.org''" and rest = "[]" and parts = "[''bob@example.org'']"]
  by (simp add: strip_more_examples re_match_def EMAIL_REGEX_def
      emit_def demo_world_def)

section \<open>Calendar arithmetic\<close>

lemma mod_100_4: "(y::nat) mod 100 = 0 \<Longrightarrow> y mod 4 = 0"
  using mod_mod_cancel [of 4 100 y] by simp

lemma mod_400_100: "(y::nat) mod 400 = 0 \<Longrightarrow> y mod 100 = 0"
  using mod_mod_cancel [of 100 400 y] by simp

lemma days_before_year_Suc:
  assumes "1 \<le> y"
  shows "days_before_year (y + 1) = days_before_year y + (if is_leap y then 366 else 365)"
proof -
  obtain n where y: "y = Suc n" using assms by (cases y) auto
  have "days_before_year (Suc n + 1) =
        days_before_year (Suc n) + (if is_leap (Suc n) then 366 else 365)"
    using mod_100_4 [of "Suc n"] mod_400_100 [of "Suc n"]
    by (auto simp: days_before_year_def is_leap_def div_Suc)
  then show ?thesis by (simp add: y)
qed

lemma month_cases:
  "1 \<le> m \<Longrightarrow> m \<le> 12 \<Longrightarrow>
   m = 1 \<or> m = 2 \<or> m = 3 \<or> m = 4 \<or> m = 5 \<or> m = 6 \<or> m = 7 \<or> m = 8 \<or> m = 9 \<or> m = 10 \<or>
   m = 11 \<or> m = (12::nat)"
  by arith

lemma days_before_month_Suc:
  assumes "1 \<le> m" "m < 12"
  shows "days_before_month y (m + 1) = days_before_month y m + int (days_in_month y m)"
proof -
  from assms have "m = 1 \<or> m = 2 \<or> m = 3 \<or> m = 4 \<or> m = 5 \<or> m = 6 \<or> m = 7 \<or> m = 8 \<or>
      m = 9 \<or> m = 10 \<or> m = 11"
    by arith
  then show ?thesis
    by (elim disjE) (simp_all add: days_before_month_def days_in_month_def)
qed

lemma days_in_month_pos: "0 < days_in_month y m" "days_in_month y m \<le> 31"
  by (simp_all add: days_in_month_def)

lemma plus_one_day_ok:
  assumes "wf_datetime dt" "plus_one_day dt = Inr next_dt"
  shows "toordinal next_dt = toordinal dt + 1 \<and> wf_datetime next_dt \<and>
         hour next_dt = hour dt \<and> minute next_dt = minute dt \<and> second next_dt = second dt \<and>
         microsecond next_dt = microsecond dt"
proof -
  consider (a) "day dt < days_in_month (year dt) (month dt)"
    | (b) "day dt = days_in_month (year dt) (month dt)" "month dt < 12"
    | (c) "day dt = days_in_month (year dt) (month dt)" "month dt = 12" "year dt < MAXYEAR"
    using assms by (auto simp: wf_datetime_def plus_one_day_def split: if_splits)
  then show ?thesis
  proof cases
    case a
    with assms show ?thesis
      by (auto simp: plus_one_day_def toordinal_def wf_datetime_def)
  next
    case b
    with assms have n: "next_dt = dt\<lparr>month := month dt + 1, day := 1\<rparr>"
      by (auto simp: plus_one_day_def)
    from assms(1) have m: "1 \<le> month dt" by (simp add: wf_datetime_def)
    show ?thesis
      using assms(1) b days_before_month_Suc [OF m b(2), of "year dt"]
        days_in_month_pos [of "year dt" "month dt + 1"]
      by (simp add: n toordinal_def wf_datetime_def)
  next
    case c
    with assms have n: "next_dt = dt\<lparr>year := year dt + 1, month := 1, day := 1\<rparr>"
      by (auto simp: plus_one_day_def)
    from assms(1) have y: "1 \<le> year dt" by (simp add: wf_datetime_def)
    show ?thesis
      using assms(1) c days_before_year_Suc [OF y]
      by (simp add: n toordinal_def wf_datetime_def days_before_month_def days_in_month_def
          MAXYEAR_def)
  qed
qed

lemma plus_one_day_overflow:
  assumes "wf_datetime dt"
  shows "(\<exists>e. plus_one_day dt = Inl e) \<longleftrightarrow> (year dt = 9999 \<and> month dt = 12 \<and> day dt = 31)"
  using assms
  by (auto simp: plus_one_day_def wf_datetime_def MAXYEAR_def days_in_month_def
      split: if_splits)


section \<open>Prompts\<close>

lemma prompt_date_eof:
  "stdin w = [] \<Longrightarrow>
   prompt_date p w =
     (Inl (Exn EOFError ''EOF when reading a line''), emit (Prompt (p @ '' (YYYY-MM-DD): '')) w)"
  by (subst prompt_date.simps) (simp add: input_def)

lemma fromisoformat_date_ValueError:
  "fromisoformat_date s = Inl e \<Longrightarrow> exn_class_of e = ValueError"
  by (auto simp: fromisoformat_date_def Let_def split: if_splits)

lemma prompt_date_wrong_format:
  assumes "stdin w = line # rest" "\<not> re_match DATE_REGEX (strip line)"
  shows "prompt_date p w =
           prompt_date p
             (emit (Log ERROR ''Wrong format. Please use YYYY-MM-DD.'')
                (emit (Prompt (p @ '' (YYYY-MM-DD): '')) (w\<lparr>stdin := rest\<rparr>)))"
  using assms by (subst prompt_date.simps) (simp add: input_def Let_def)

lemma prompt_date_out_of_range:
  assumes "stdin w = line # rest" "re_match DATE_REGEX (strip line)"
    "fromisoformat_date (strip line) = Inl e"
  shows "prompt_date p w =
           prompt_date p
             (emit (Log ERROR ''Invalid date (out of range). Try again.'')
                (emit (Prompt (p @ '' (YYYY-MM-DD): '')) (w\<lparr>stdin := rest\<rparr>)))"
  using assms fromisoformat_date_ValueError [OF assms(3)]
  by (subst prompt_date.simps) (simp add: input_def Let_def)

lemma prompt_date_accepts:
  assumes "stdin w = line # rest" "re_match DATE_REGEX (strip line)"
    "fromisoformat_date (strip line) = Inr dt"
  shows "prompt_date p w = (Inr dt, emit (Prompt (p @ '' (YYYY-MM-DD): '')) (w\<lparr>stdin := rest\<rparr>))"
  using assms by (subst prompt_date.simps) (simp add: input_def Let_def)





lemma matches_One:
  "matches (One k # r) s \<longleftrightarrow> (\<exists>c t. s = c # t \<and> in_class k c \<and> matches r t)"
  by (cases s) auto

lemma matches_digits2:
  "matches (One Digit # One Digit # r) s \<longleftrightarrow>
   (\<exists>a b t. s = a # b # t \<and> in_class Digit a \<and> in_class Digit b \<and> matches r t)"
  by (simp only: matches_One) blast

lemma matches_dash:
  "matches (One (Literal (CHR ''-'')) # r) s \<longleftrightarrow> (\<exists>t. s = CHR ''-'' # t \<and> matches r t)"
  by (simp only: matches_One in_class.simps) blast

lemma DATE_REGEX_iff:
  "matches DATE_REGEX s \<longleftrightarrow>
   (\<exists>y1 y2 y3 y4 m1 m2 d1 d2.
      s = [y1, y2, y3, y4, CHR ''-'', m1, m2, CHR ''-'', d1, d2] \<and>
      in_class Digit y1 \<and> in_class Digit y2 \<and> in_class Digit y3 \<and> in_class Digit y4 \<and>
      in_class Digit m1 \<and> in_class Digit m2 \<and> in_class Digit d1 \<and> in_class Digit d2)"
  unfolding DATE_REGEX_def
  apply (simp only: matches_digits2 matches_dash matches.simps(1))
  apply (rule iffI)
   apply (elim exE conjE)
   apply simp
  apply (elim exE conjE)
  apply simp
  done

lemma digit_value_le: "in_class Digit c \<Longrightarrow> digit_value c \<le> 9"
  by (auto simp: digit_value_def)

lemma fromisoformat_date_Inr:
  assumes "fromisoformat_date s = Inr dt"
  shows "length s = 10 \<and> 1 \<le> year dt \<and> 1 \<le> month dt \<and> month dt \<le> 12 \<and> 1 \<le> day dt \<and>
         day dt \<le> days_in_month (year dt) (month dt) \<and> year dt = number (take 4 s) \<and>
         hour dt = 0 \<and> minute dt = 0 \<and> second dt = 0 \<and> microsecond dt = 0"
proof -
  define y where "y = number (take 4 s)"
  define m where "m = number (take 2 (drop 5 s))"
  define d where "d = number (take 2 (drop 8 s))"
  have f: "fromisoformat_date s =
     (if length s \<noteq> 10 then Inl (Exn ValueError (''Invalid isoformat string: '' @ quoted s))
      else if y < 1 then Inl (Exn ValueError (''year '' @ four_digits y @ '' is out of range''))
      else if m < 1 \<or> 12 < m then Inl (Exn ValueError ''month must be in 1..12'')
      else if d < 1 \<or> days_in_month y m < d
      then Inl (Exn ValueError ''day is out of range for month'')
      else Inr \<lparr>year = y, month = m, day = d, hour = 0, minute = 0, second = 0,
                microsecond = 0\<rparr>)"
    unfolding fromisoformat_date_def Let_def y_def m_def d_def ..
  from assms show ?thesis
    unfolding f by (auto simp: y_def split: if_splits)
qed

lemma number4_le:
  assumes "in_class Digit y1" "in_class Digit y2" "in_class Digit y3" "in_class Digit y4"
  shows "number [y1, y2, y3, y4] \<le> 9999"
proof -
  have "number [y1, y2, y3, y4] =
        ((digit_value y1 * 10 + digit_value y2) * 10 + digit_value y3) * 10 + digit_value y4"
    by (simp add: number_def)
  with assms [THEN digit_value_le] show ?thesis by arith
qed

lemma fromisoformat_date_valid:
  assumes "re_match DATE_REGEX s" "fromisoformat_date s = Inr dt"
  shows "wf_datetime dt \<and> hour dt = 0 \<and> minute dt = 0 \<and> second dt = 0 \<and> microsecond dt = 0"
proof -
  note r = fromisoformat_date_Inr [OF assms(2)]
  from r have len: "length s = 10" by simp
  have "\<not> matches DATE_REGEX (butlast s)"
  proof
    assume "matches DATE_REGEX (butlast s)"
    then obtain y1 y2 y3 y4 m1 m2 d1 d2 where
      "butlast s = [y1, y2, y3, y4, CHR ''-'', m1, m2, CHR ''-'', d1, d2]"
      unfolding DATE_REGEX_iff by blast
    then have "length (butlast s) = 10" by simp
    with len show False by simp
  qed
  with assms(1) have "matches DATE_REGEX s" by (auto simp: re_match_def)
  then obtain y1 y2 y3 y4 m1 m2 d1 d2 where
    s: "s = [y1, y2, y3, y4, CHR ''-'', m1, m2, CHR ''-'', d1, d2]" and
    d: "in_class Digit y1" "in_class Digit y2" "in_class Digit y3" "in_class Digit y4"
    unfolding DATE_REGEX_iff by blast
  have "take 4 s = [y1, y2, y3, y4]" by (simp add: s)
  with number4_le [OF d] r have "year dt \<le> 9999" by simp
  moreover from r have "1 \<le> year dt" "1 \<le> month dt" "month dt \<le> 12" "1 \<le> day dt"
    "day dt \<le> days_in_month (year dt) (month dt)" "hour dt = 0" "minute dt = 0"
    "second dt = 0" "microsecond dt = 0"
    by blast+
  ultimately show ?thesis
    by (simp add: wf_datetime_def MAXYEAR_def)
qed

lemma prompt_date_valid:
  "prompt_date p w = (Inr dt, w') \<Longrightarrow>
   wf_datetime dt \<and> hour dt = 0 \<and> minute dt = 0 \<and> second dt = 0 \<and> microsecond dt = 0"
proof (induction "stdin w" arbitrary: w)
  case Nil
  then have "stdin w = []" by simp
  with Nil.prems show ?case by (simp add: prompt_date_eof)
next
  case (Cons line rest)
  note st = Cons.hyps(2) [symmetric]
  have rest: "rest = stdin (emit ev (emit ev' (w\<lparr>stdin := rest\<rparr>)))" for ev ev'
    by (simp add: emit_def)
  show ?case
  proof (cases "re_match DATE_REGEX (strip line)")
    case False
    from Cons.prems have "prompt_date p
             (emit (Log ERROR ''Wrong format. Please use YYYY-MM-DD.'')
                (emit (Prompt (p @ '' (YYYY-MM-DD): '')) (w\<lparr>stdin := rest\<rparr>))) = (Inr dt, w')"
      by (simp add: prompt_date_wrong_format [OF st False])
    with Cons.hyps(1) [OF rest] show ?thesis .
  next
    case True
    show ?thesis
    proof (cases "fromisoformat_date (strip line)")
      case (Inr dt')
      with Cons.prems have "dt' = dt"
        by (simp add: prompt_date_accepts [OF st True Inr])
      with fromisoformat_date_valid [OF True Inr] show ?thesis by simp
    next
      case (Inl e')
      from Cons.prems have "prompt_date p
             (emit (Log ERROR ''Invalid date (out of range). Try again.'')
                (emit (Prompt (p @ '' (YYYY-MM-DD): '')) (w\<lparr>stdin := rest\<rparr>))) = (Inr dt, w')"
        by (simp add: prompt_date_out_of_range [OF st True Inl])
      with Cons.hyps(1) [OF rest] show ?thesis .
    qed
  qed
qed

section \<open>The text of a date and of a time\<close>

text \<open>The text written by \<open>isoformat\<close> determines the time, and reading the text of
  a date gives the date back.\<close>

lemma digit_value_digit: "digit_value (digit n) = n mod 10"
proof -
  have "n mod 10 < 10" by simp
  then have "n mod 10 = 0 \<or> n mod 10 = 1 \<or> n mod 10 = 2 \<or> n mod 10 = 3 \<or> n mod 10 = 4 \<or>
      n mod 10 = 5 \<or> n mod 10 = 6 \<or> n mod 10 = 7 \<or> n mod 10 = 8 \<or> n mod 10 = 9"
    by arith
  then show ?thesis
    by (auto simp: digit_def digit_value_def)
qed

lemma number_two_digits:
  assumes "n < 100"
  shows "number (two_digits n) = n"
proof -
  define a where "a = n div 10"
  define b where "b = n mod 10"
  have 1: "n = 10 * a + b" by (simp add: a_def b_def)
  from assms have 2: "a mod 10 = a" by (simp add: a_def)
  have "number (two_digits n) = (a mod 10) * 10 + b"
    by (simp add: number_def two_digits_def digit_value_digit a_def b_def)
  with 1 2 show ?thesis by linarith
qed

lemma number_four_digits:
  assumes "n < 10000"
  shows "number (four_digits n) = n"
proof -
  define a where "a = n div 1000"
  define b where "b = n div 100 mod 10"
  define c where "c = n div 10 mod 10"
  define d where "d = n mod 10"
  define p where "p = n div 10"
  define q where "q = n div 100"
  define r where "r = number (four_digits n)"
  have 1: "n = 10 * p + d" by (simp add: d_def p_def)
  have "n div 100 = n div 10 div 10" by (simp add: div_mult2_eq [symmetric])
  then have 2: "p = 10 * q + c" by (simp add: c_def p_def q_def)
  have "n div 1000 = n div 100 div 10" by (simp add: div_mult2_eq [symmetric])
  then have 3: "q = 10 * a + b" by (simp add: a_def b_def q_def)
  from assms have "a mod 10 = a" by (simp add: a_def)
  then have 4: "r = ((a * 10 + b) * 10 + c) * 10 + d"
    by (simp add: r_def number_def four_digits_def digit_value_digit a_def b_def c_def d_def)
  from 1 2 3 4 have "r = n" by (simp only:) simp
  then show ?thesis by (simp add: r_def)
qed

lemma four_digits_mod: "four_digits (n mod 10000) = four_digits n"
proof -
  have "n mod 10000 mod 10 = n mod 10"
    using mod_mod_cancel [of 10 10000 n] by simp
  moreover have "n mod 10000 div 10 mod 10 = n div 10 mod 10"
    using mod_mult2_eq [of n 10 1000] mod_mod_cancel [of 10 1000 "n div 10"]
    by (simp add: div_mult2_eq mod_mult2_eq)
  moreover have "n mod 10000 div 100 mod 10 = n div 100 mod 10"
    using mod_mult2_eq [of n 100 100] mod_mod_cancel [of 10 100 "n div 100"]
    by (simp add: div_mult2_eq mod_mult2_eq)
  moreover have "n mod 10000 div 1000 mod 10 = n div 1000 mod 10"
    using mod_mult2_eq [of n 1000 10]
    by (simp add: div_mult2_eq mod_mult2_eq)
  ultimately show ?thesis
    by (simp add: four_digits_def digit_def)
qed

lemma number_six_digits:
  assumes "n < 1000000"
  shows "number (six_digits n) = n"
proof -
  from assms have h: "n div 10000 < 100" by simp
  have "number (six_digits n) =
        number (two_digits (n div 10000)) * 10000 + number (four_digits (n mod 10000))"
    by (simp add: six_digits_def number_def two_digits_def four_digits_mod)
      (simp add: four_digits_def)
  then show ?thesis
    by (simp add: number_two_digits [OF h] number_four_digits)
qed

lemma fromisoformat_date_isoformat:
  assumes "wf_datetime dt" "hour dt = 0" "minute dt = 0" "second dt = 0" "microsecond dt = 0"
  shows "fromisoformat_date (date_isoformat dt) = Inr dt"
proof -
  from assms(1) have b: "year dt < 10000" "month dt < 100" "day dt < 100"
    using days_in_month_pos(2) [of "year dt" "month dt"]
    by (auto simp: wf_datetime_def MAXYEAR_def)
  have t: "take 4 (date_isoformat dt) = four_digits (year dt)"
    "take 2 (drop 5 (date_isoformat dt)) = two_digits (month dt)"
    "take 2 (drop 8 (date_isoformat dt)) = two_digits (day dt)"
    "length (date_isoformat dt) = 10"
    by (simp_all add: date_isoformat_def four_digits_def two_digits_def)
  show ?thesis
    using assms
    by (simp add: fromisoformat_date_def t number_four_digits [OF b(1)]
        number_two_digits [OF b(2)] number_two_digits [OF b(3)] wf_datetime_def)
qed

lemma isoformat_fields:
  assumes "wf_datetime dt"
  shows "number (take 4 (isoformat dt)) = year dt"
    "number (take 2 (drop 5 (isoformat dt))) = month dt"
    "number (take 2 (drop 8 (isoformat dt))) = day dt"
    "number (take 2 (drop 11 (isoformat dt))) = hour dt"
    "number (take 2 (drop 14 (isoformat dt))) = minute dt"
    "number (take 2 (drop 17 (isoformat dt))) = second dt"
    "(if isoformat dt ! 19 = CHR ''.'' then number (take 6 (drop 20 (isoformat dt))) else 0) =
       microsecond dt"
proof -
  from assms have b: "year dt < 10000" "month dt < 100" "day dt < 100" "hour dt < 100"
    "minute dt < 100" "second dt < 100" "microsecond dt < 1000000"
    using days_in_month_pos(2) [of "year dt" "month dt"]
    by (auto simp: wf_datetime_def MAXYEAR_def)
  have t: "take 4 (isoformat dt) = four_digits (year dt)"
    "take 2 (drop 5 (isoformat dt)) = two_digits (month dt)"
    "take 2 (drop 8 (isoformat dt)) = two_digits (day dt)"
    "take 2 (drop 11 (isoformat dt)) = two_digits (hour dt)"
    "take 2 (drop 14 (isoformat dt)) = two_digits (minute dt)"
    "take 2 (drop 17 (isoformat dt)) = two_digits (second dt)"
    by (simp_all add: isoformat_def date_isoformat_def four_digits_def two_digits_def)
  have u: "isoformat dt ! 19 = (if microsecond dt = 0 then CHR ''+'' else CHR ''.'')"
    "microsecond dt \<noteq> 0 \<Longrightarrow> take 6 (drop 20 (isoformat dt)) = six_digits (microsecond dt)"
    by (simp_all add: isoformat_def date_isoformat_def four_digits_def two_digits_def
        six_digits_def)
  show "number (take 4 (isoformat dt)) = year dt"
    "number (take 2 (drop 5 (isoformat dt))) = month dt"
    "number (take 2 (drop 8 (isoformat dt))) = day dt"
    "number (take 2 (drop 11 (isoformat dt))) = hour dt"
    "number (take 2 (drop 14 (isoformat dt))) = minute dt"
    "number (take 2 (drop 17 (isoformat dt))) = second dt"
    by (simp_all add: t number_four_digits b number_two_digits)
  show "(if isoformat dt ! 19 = CHR ''.'' then number (take 6 (drop 20 (isoformat dt))) else 0) =
       microsecond dt"
    by (simp add: u number_six_digits b)
qed

lemma isoformat_inj:
  assumes "wf_datetime a" "wf_datetime b" "isoformat a = isoformat b"
  shows "a = b"
  using isoformat_fields [OF assms(1)] isoformat_fields [OF assms(2)]
  unfolding assms(3) by (intro datetime.equality) simp_all

section \<open>Fetching the events of a date\<close>

lemma bind_lift:
  "bind_io (lift (Inr x)) f w = f x w" "bind_io (lift (Inl e)) f w = (Inl e, w)"
  by (simp_all add: bind_io_def lift_def)

lemma fetch_events_for_date_unfold:
  assumes "plus_one_day date_dt = Inr next_dt"
  shows "fetch_events_for_date env date_dt w =
     bind_io (calendar_api_call Menu env (JStr ''events'') (JStr ''list'')
                (JObj [(''calendarId'', JStr ''primary''),
                       (''timeMin'', JStr (isoformat date_dt)),
                       (''timeMax'', JStr (isoformat next_dt)),
                       (''singleEvents'', JBool True),
                       (''orderBy'', JStr ''startTime'')]))
       (\<lambda>result.
          bind_io (lift (py_get result ''items'' (JArr []))) (\<lambda>items.
          if \<not> truthy items
          then logger INFO (''No events found on '' @ date_isoformat date_dt @ ''.'')
          else bind_io (logger INFO (''Events on '' @ date_isoformat date_dt @ '':'')) (\<lambda>_.
               bind_io (lift (py_iter items)) (\<lambda>evs.
               print_events env evs)))) w"
  using assms
  by (simp add: fetch_events_for_date_def Let_def bind_lift)

lemma plus_one_day_midnight:
  assumes "wf_datetime dt" "plus_one_day dt = Inr next_dt"
  shows "microseconds next_dt = microseconds dt + 24 * 3600 * 1000000"
  using plus_one_day_ok [OF assms] by (simp add: microseconds_def)

lemma fetch_events_for_date_window:
  assumes "prompt_date p w0 = (Inr date_dt, w)"
    and "\<not> (year date_dt = 9999 \<and> month date_dt = 12 \<and> day date_dt = 31)"
  shows "\<exists>next_dt.
     plus_one_day date_dt = Inr next_dt \<and>
     hour date_dt = 0 \<and> minute date_dt = 0 \<and> second date_dt = 0 \<and> microsecond date_dt = 0 \<and>
     microseconds next_dt = microseconds date_dt + 24 * 3600 * 1000000 \<and>
     fetch_events_for_date env date_dt w =
       bind_io (calendar_api_call Menu env (JStr ''events'') (JStr ''list'')
                  (JObj [(''calendarId'', JStr ''primary''),
                         (''timeMin'', JStr (isoformat date_dt)),
                         (''timeMax'', JStr (isoformat next_dt)),
                         (''singleEvents'', JBool True),
                         (''orderBy'', JStr ''startTime'')]))
         (\<lambda>result.
            bind_io (lift (py_get result ''items'' (JArr []))) (\<lambda>items.
            if \<not> truthy items
            then logger INFO (''No events found on '' @ date_isoformat date_dt @ ''.'')
            else bind_io (logger INFO (''Events on '' @ date_isoformat date_dt @ '':'')) (\<lambda>_.
                 bind_io (lift (py_iter items)) (\<lambda>evs.
                 print_events env evs)))) w"
proof -
  note v = prompt_date_valid [OF assms(1)]
  from v have wf: "wf_datetime date_dt" by simp
  from plus_one_day_overflow [OF wf] assms(2)
  obtain next_dt where n: "plus_one_day date_dt = Inr next_dt"
    by (cases "plus_one_day date_dt") auto
  from v plus_one_day_midnight [OF wf n] fetch_events_for_date_unfold [OF n, of env w] n
  show ?thesis by blast
qed

text \<open>
  C6, at the input where the code fails. The date 9999-12-31 passes the validation of
  \<open>prompt_date\<close>; \<open>fetch_events_for_date\<close> then raises \<open>OverflowError\<close> while it
  computes the end of the window, before the gateway is called: no list call is issued
  and no message is printed. At every other validated date the window is computed, as
  \<open>fetch_events_for_date_window\<close> shows, and \<open>insert_event\<close> guards the same kind
  of addition with its handler.
\<close>

theorem fetch_events_for_date_overflow:
  "prompt_date ''Enter date to fetch'' (demo_world\<lparr>stdin := [''9999-12-31'']\<rparr>) =
     (Inr last_day, demo_world\<lparr>trace := [Prompt ''Enter date to fetch (YYYY-MM-DD): '']\<rparr>) \<and>
   fetch_events_for_date demo_env last_day
     (demo_world\<lparr>trace := [Prompt ''Enter date to fetch (YYYY-MM-DD): '']\<rparr>) =
     (Inl (Exn OverflowError ''date value out of range''),
      demo_world\<lparr>trace := [Prompt ''Enter date to fetch (YYYY-MM-DD): '']\<rparr>)"
proof -
  have s: "strip ''9999-12-31'' = ''9999-12-31''"
    by (simp add: strip_def is_space_def)
  have m: "re_match DATE_REGEX ''9999-12-31''"
    by (simp add: re_match_def DATE_REGEX_def)
  have d: "fromisoformat_date ''9999-12-31'' = Inr last_day"
    by (simp add: fromisoformat_date_def number_def digit_value_def days_in_month_def
        last_day_def)
  have p: "prompt_date ''Enter date to fetch'' (demo_world\<lparr>stdin := [''9999-12-31'']\<rparr>) =
     (Inr last_day, demo_world\<lparr>trace := [Prompt ''Enter date to fetch (YYYY-MM-DD): '']\<rparr>)"
    using prompt_date_accepts [where w = "demo_world\<lparr>stdin := [''9999-12-31'']\<rparr>"
        and line = "''9999-12-31''" and rest = "[]" and dt = last_day
        and p = "''Enter date to fetch''"]
    by (simp add: s m d emit_def demo_world_def)
  have f: "fetch_events_for_date demo_env last_day w =
     (Inl (Exn OverflowError ''date value out of range''), w)" for w
    by (simp add: fetch_events_for_date_def Let_def bind_io_def lift_def plus_one_day_def
        last_day_def days_in_month_def MAXYEAR_def)
  from p f show ?thesis by simp
qed

lemma july_6_text:
  "isoformat july_6 = ''2025-07-06T00:00:00+00:00''" "date_isoformat july_6 = ''2025-07-06''"
  "plus_one_day july_6 = Inr (july_6\<lparr>day := 7\<rparr>)"
  "isoformat (july_6\<lparr>day := 7\<rparr>) = ''2025-07-07T00:00:00+00:00''"
  by (simp_all add: isoformat_def date_isoformat_def july_6_def four_digits_def two_digits_def
      digit_def plus_one_day_def days_in_month_def)

lemma july_6_list_call:
  "calendar_api_call Menu env_quota (JStr ''events'') (JStr ''list'')
       (JObj [(''calendarId'', JStr ''primary''),
              (''timeMin'', JStr ''2025-07-06T00:00:00+00:00''),
              (''timeMax'', JStr ''2025-07-07T00:00:00+00:00''),
              (''singleEvents'', JBool True),
              (''orderBy'', JStr ''startTime'')]) demo_world =
     (Inr (JObj [(''error'', JStr ''quotaExceeded'')]),
      demo_world\<lparr>trace := [PathExists, LoadCredentials, Build,
         Execute (JStr ''events'') (JStr ''list'')
           (JObj [(''calendarId'', JStr ''primary''),
                  (''timeMin'', JStr ''2025-07-06T00:00:00+00:00''),
                  (''timeMax'', JStr ''2025-07-07T00:00:00+00:00''),
                  (''singleEvents'', JBool True),
                  (''orderBy'', JStr ''startTime'')]),
         Log ERROR (cross_mark @ '' Calendar API error: quotaExceeded'')]\<rparr>)"
  "calendar_api_call Menu demo_env (JStr ''events'') (JStr ''list'')
       (JObj [(''calendarId'', JStr ''primary''),
              (''timeMin'', JStr ''2025-07-06T00:00:00+00:00''),
              (''timeMax'', JStr ''2025-07-07T00:00:00+00:00''),
              (''singleEvents'', JBool True),
              (''orderBy'', JStr ''startTime'')]) demo_world =
     (Inr (JObj [(''items'', JArr [])]),
      demo_world\<lparr>trace := [PathExists, LoadCredentials, Build,
         Execute (JStr ''events'') (JStr ''list'')
           (JObj [(''calendarId'', JStr ''primary''),
                  (''timeMin'', JStr ''2025-07-06T00:00:00+00:00''),
                  (''timeMax'', JStr ''2025-07-07T00:00:00+00:00''),
                  (''singleEvents'', JBool True),
                  (''orderBy'', JStr ''startTime'')])]\<rparr>)"
  by (simp_all add: calendar_api_call_def get_calendar_service_def bind_io_def ext_def emit_def
      return_io_def try_except_Exception_def env_quota_def demo_env_def demo_world_def
      demo_credentials_def logger_def error_dict_def ALLOWED_RESOURCES_def)

lemma july_6_fetch:
  "fetch_events_for_date env_quota july_6 demo_world =
     (Inr (),
      demo_world\<lparr>trace :=
        [PathExists, LoadCredentials, Build,
         Execute (JStr ''events'') (JStr ''list'')
           (JObj [(''calendarId'', JStr ''primary''),
                  (''timeMin'', JStr ''2025-07-06T00:00:00+00:00''),
                  (''timeMax'', JStr ''2025-07-07T00:00:00+00:00''),
                  (''singleEvents'', JBool True),
                  (''orderBy'', JStr ''startTime'')]),
         Log ERROR (cross_mark @ '' Calendar API error: quotaExceeded''),
         Log INFO ''No events found on 2025-07-06.'']\<rparr>)"
  "fetch_events_for_date demo_env july_6 demo_world =
     (Inr (),
      demo_world\<lparr>trace :=
        [PathExists, LoadCredentials, Build,
         Execute (JStr ''events'') (JStr ''list'')
           (JObj [(''calendarId'', JStr ''primary''),
                  (''timeMin'', JStr ''2025-07-06T00:00:00+00:00''),
                  (''timeMax'', JStr ''2025-07-07T00:00:00+00:00''),
                  (''singleEvents'', JBool True),
                  (''orderBy'', JStr ''startTime'')]),
         Log INFO ''No events found on 2025-07-06.'']\<rparr>)"
  by (simp_all add: fetch_events_for_date_unfold [OF july_6_text(3)] july_6_list_call
      bind_io_def lift_def py_get_def logger_def emit_def july_6_text)

text \<open>
  C9, as stated, fails in its last part: a failed list call is not indistinguishable to
  the user from a day without events. When the calendar service refuses the request,
  the log shows the gateway's error line before the line of \<open>fetch_events_for_date\<close>;
  on a day without events it shows that line alone.
\<close>

theorem failed_list_call_is_logged:
  "filter is_log (trace (snd (fetch_events_for_date env_quota july_6 demo_world))) =
     [Log ERROR (cross_mark @ '' Calendar API error: quotaExceeded''),
      Log INFO ''No events found on 2025-07-06.''] \<and>
   filter is_log (trace (snd (fetch_events_for_date demo_env july_6 demo_world))) =
     [Log INFO ''No events found on 2025-07-06.'']"
  by (simp add: july_6_fetch)

text \<open>
  C9, amended. For every gateway result that is an error mapping (a dict with the key
  error and without the key items), \<open>fetch_events_for_date\<close> logs the same line
  "No events found on date." as for a result with an empty list of items, and returns
  normally: it does not report the failure itself. What tells the two apart for the
  user is the gateway's own line: when the gateway caught an exception of class
  \<open>Exception\<close>, while it obtained the service client or executed the request, the log
  holds "Calendar API error: str(e)" just before that line.
\<close>

theorem fetch_events_for_date_error_as_empty:
  assumes "plus_one_day date_dt = Inr next_dt"
    and "params = JObj [(''calendarId'', JStr ''primary''),
                        (''timeMin'', JStr (isoformat date_dt)),
                        (''timeMax'', JStr (isoformat next_dt)),
                        (''singleEvents'', JBool True),
                        (''orderBy'', JStr ''startTime'')]"
  shows
   "(calendar_api_call Menu env (JStr ''events'') (JStr ''list'') params w = (Inr result, w1) \<and>
     ((\<exists>kvs. result = JObj kvs \<and> map_of kvs ''error'' \<noteq> None \<and> map_of kvs ''items'' = None) \<or>
      result = JObj [(''items'', JArr [])]) \<longrightarrow>
       fetch_events_for_date env date_dt w =
         (Inr (), emit (Log INFO (''No events found on '' @ date_isoformat date_dt @ ''.'')) w1)) \<and>
    (get_calendar_service Menu env w = (Inl e, w2) \<and> is_Exception e \<longrightarrow>
       fetch_events_for_date env date_dt w =
         (Inr (), emit (Log INFO (''No events found on '' @ date_isoformat date_dt @ ''.''))
                    (emit (Log ERROR (cross_mark @ '' Calendar API error: '' @ str_exn e)) w2))) \<and>
    (get_calendar_service Menu env w = (Inr service, w3) \<and>
     execute env (trace w3) service (JStr ''events'') (JStr ''list'') params = Inl e \<and>
     is_Exception e \<longrightarrow>
       fetch_events_for_date env date_dt w =
         (Inr (), emit (Log INFO (''No events found on '' @ date_isoformat date_dt @ ''.''))
                    (emit (Log ERROR (cross_mark @ '' Calendar API error: '' @ str_exn e))
                       (emit (Execute (JStr ''events'') (JStr ''list'') params) w3))))"
proof -
  have first: "fetch_events_for_date env date_dt w =
         (Inr (), emit (Log INFO (''No events found on '' @ date_isoformat date_dt @ ''.'')) w1)"
    if "calendar_api_call Menu env (JStr ''events'') (JStr ''list'') params w = (Inr result, w1)"
      and "(\<exists>kvs. result = JObj kvs \<and> map_of kvs ''error'' \<noteq> None \<and> map_of kvs ''items'' = None) \<or>
           result = JObj [(''items'', JArr [])]"
    for result w1
    using that
    by (auto simp: fetch_events_for_date_unfold [OF assms(1)] assms(2) [symmetric]
        bind_io_def lift_def py_get_def logger_def)
  have m: "''list'' \<in> ALLOWED_METHODS Menu" by simp
  have second: "calendar_api_call Menu env (JStr ''events'') (JStr ''list'') params w =
      (Inr (JObj [(''error'', JStr (str_exn e))]),
       emit (Log ERROR (cross_mark @ '' Calendar API error: '' @ str_exn e)) w2)"
    if "get_calendar_service Menu env w = (Inl e, w2)" "is_Exception e"
    using that
    by (simp add: try_body_cases [OF m] try_except_Exception_def bind_io_def logger_def
        return_io_def error_dict_def)
  have third: "calendar_api_call Menu env (JStr ''events'') (JStr ''list'') params w =
      (Inr (JObj [(''error'', JStr (str_exn e))]),
       emit (Log ERROR (cross_mark @ '' Calendar API error: '' @ str_exn e))
         (emit (Execute (JStr ''events'') (JStr ''list'') params) w3))"
    if "get_calendar_service Menu env w = (Inr service, w3)"
      "execute env (trace w3) service (JStr ''events'') (JStr ''list'') params = Inl e"
      "is_Exception e"
    using that
    by (simp add: try_body_cases [OF m] try_except_Exception_def bind_io_def logger_def
        return_io_def error_dict_def ext_def)
  show ?thesis
    using first [OF second] first [OF third] first by auto
qed

theorem fetch_events_for_date_error_as_empty_witness:
  "fetch_events_for_date env_quota july_6 demo_world =
     (Inr (),
      demo_world\<lparr>trace :=
        [PathExists, LoadCredentials, Build,
         Execute (JStr ''events'') (JStr ''list'')
           (JObj [(''calendarId'', JStr ''primary''),
                  (''timeMin'', JStr ''2025-07-06T00:00:00+00:00''),
                  (''timeMax'', JStr ''2025-07-07T00:00:00+00:00''),
                  (''singleEvents'', JBool True),
                  (''orderBy'', JStr ''startTime'')]),
         Log ERROR (cross_mark @ '' Calendar API error: quotaExceeded''),
         Log INFO ''No events found on 2025-07-06.'']\<rparr>) \<and>
   fetch_events_for_date demo_env july_6 demo_world =
     (Inr (),
      demo_world\<lparr>trace :=
        [PathExists, LoadCredentials, Build,
         Execute (JStr ''events'') (JStr ''list'')
           (JObj [(''calendarId'', JStr ''primary''),
                  (''timeMin'', JStr ''2025-07-06T00:00:00+00:00''),
                  (''timeMax'', JStr ''2025-07-07T00:00:00+00:00''),
                  (''singleEvents'', JBool True),
                  (''orderBy'', JStr ''startTime'')]),
         Log INFO ''No events found on 2025-07-06.'']\<rparr>)"
  using fetch_events_for_date_error_as_empty [OF july_6_text(3) refl, where env = env_quota
      and w = demo_world and result = "JObj [(''error'', JStr ''quotaExceeded'')]"]
    fetch_events_for_date_error_as_empty [OF july_6_text(3) refl, where env = demo_env
      and w = demo_world and result = "JObj [(''items'', JArr [])]"]
  by (simp add: july_6_list_call july_6_text emit_def)

section \<open>Inserting an event\<close>






section \<open>Malformed input\<close>




end
